theory Spec2Isabelle
  imports Main
begin

section \<open>Backup manager of mongodb-manager: a shallow embedding\<close>

text \<open>
  The development embeds \<^verbatim>\<open>lib/backup-manager.js\<close> (class \<^verbatim>\<open>BackupManager\<close>).
  Every asynchronous method becomes a function from the state before the call to a pair of
  its outcome and the state after it; a rejected promise (a thrown exception) is \<open>Inl\<close> of
  the error, a resolved one is \<open>Inr\<close> of the value. The collaborators of the class (file
  system, database driver, cron library, configuration store, clock) are parameters: what
  they answer, and whether they fail, is read from an environment record.
\<close>

subsection \<open>Errors and the logger\<close>

text \<open>A JavaScript \<^verbatim>\<open>Error\<close> object; the code only ever reads its \<^verbatim>\<open>message\<close>.\<close>

datatype error = Error (message: string)

text \<open>
  The logger is modelled as a list of entries that is appended to; a logger call never
  throws.
\<close>

datatype log_entry =
    LogInfo string
  | LogWarn string string
  | LogError string error

subsection \<open>Scheduler state\<close>

text \<open>The \<^verbatim>\<open>options\<close> object handed to \<^verbatim>\<open>createBackup\<close>; only \<^verbatim>\<open>compress\<close> is read.\<close>

record backup_options =
  compress :: bool

text \<open>
  A task object as returned by \<^verbatim>\<open>cron.schedule\<close>. Its callback closes over the cluster,
  the database and the options; \<open>running\<close> is set by \<^verbatim>\<open>start()\<close> and cleared by
  \<^verbatim>\<open>stop()\<close>. Task objects live in a store and are referred to by their index.
\<close>

record cron_task =
  task_pattern :: string
  task_cluster :: string
  task_database :: string
  task_options :: backup_options
  running :: bool

text \<open>
  The object stored in \<^verbatim>\<open>this.scheduledJobs\<close> (lines 292-299): its own properties are
  \<^verbatim>\<open>job\<close>, \<^verbatim>\<open>cluster\<close>, \<^verbatim>\<open>database\<close>, \<^verbatim>\<open>pattern\<close>, \<^verbatim>\<open>options\<close>, \<^verbatim>\<open>createdAt\<close>.
\<close>

record schedule_entry =
  job :: nat
  se_cluster :: string
  se_database :: string
  se_pattern :: string
  se_options :: backup_options
  se_createdAt :: int

text \<open>The object persisted under \<^verbatim>\<open>backupSchedules[jobId]\<close> (lines 304-309).\<close>

record persisted_schedule =
  ps_cluster :: string
  ps_database :: string
  ps_pattern :: string
  ps_options :: backup_options

record scheduler =
  scheduledJobs :: "string \<rightharpoonup> schedule_entry"
  tasks :: "cron_task list"
  backupSchedules :: "string \<rightharpoonup> persisted_schedule"
  sched_log :: "log_entry list"

text \<open>
  What the scheduler's collaborators answer: \<^verbatim>\<open>cron.schedule\<close> throws on a pattern it does
  not accept, \<^verbatim>\<open>config.save()\<close> may reject, and \<^verbatim>\<open>new Date()\<close> reads the clock.
\<close>

record sched_env =
  cron_reject :: "string \<Rightarrow> error option"
  config_save_err :: "error option"
  sched_now :: int

subsection \<open>Scheduler operations\<close>

text \<open>
  Line 277 calls \<^verbatim>\<open>this.scheduledJobs.get(jobId).stop()\<close>: the method \<^verbatim>\<open>stop\<close> is looked
  up on the stored entry object itself, not on its \<^verbatim>\<open>job\<close> property. The entry has no
  property of that name, so the call is a call of \<^verbatim>\<open>undefined\<close> and throws a TypeError;
  no task is touched.
\<close>

definition entry_stop :: "schedule_entry \<Rightarrow> scheduler \<Rightarrow> (error + unit) \<times> scheduler" where
  "entry_stop e s = (Inl (Error ''this.scheduledJobs.get(...).stop is not a function''), s)"

text \<open>\<^verbatim>\<open>task.stop()\<close> and \<^verbatim>\<open>task.start()\<close> on the task object with reference \<open>r\<close>.\<close>

definition task_stop :: "nat \<Rightarrow> scheduler \<Rightarrow> scheduler" where
  "task_stop r s =
     (if r < length (tasks s) then s\<lparr>tasks := (tasks s)[r := (tasks s ! r)\<lparr>running := False\<rparr>]\<rparr>
      else s)"

definition task_start :: "nat \<Rightarrow> scheduler \<Rightarrow> scheduler" where
  "task_start r s =
     (if r < length (tasks s) then s\<lparr>tasks := (tasks s)[r := (tasks s ! r)\<lparr>running := True\<rparr>]\<rparr>
      else s)"

text \<open>
  \<^verbatim>\<open>cron.schedule(pattern, callback, {scheduled: false})\<close>: a new task object, not yet
  running, or an exception for a pattern the library rejects.
\<close>

definition cron_schedule ::
  "sched_env \<Rightarrow> string \<Rightarrow> string \<Rightarrow> string \<Rightarrow> backup_options \<Rightarrow> scheduler
     \<Rightarrow> (error + nat) \<times> scheduler" where
  "cron_schedule env cronPattern clusterName dbName opts s =
     (case cron_reject env cronPattern of
        Some e \<Rightarrow> (Inl e, s)
      | None \<Rightarrow>
          (Inr (length (tasks s)),
           s\<lparr>tasks := tasks s @
                [\<lparr>task_pattern = cronPattern, task_cluster = clusterName,
                  task_database = dbName, task_options = opts, running = False\<rparr>]\<rparr>))"

text \<open>\<^verbatim>\<open>saveScheduleToConfig\<close> (lines 348-353) and \<^verbatim>\<open>removeScheduleFromConfig\<close> (355-360).\<close>

definition saveScheduleToConfig ::
  "sched_env \<Rightarrow> string \<Rightarrow> persisted_schedule \<Rightarrow> scheduler \<Rightarrow> (error + unit) \<times> scheduler" where
  "saveScheduleToConfig env jobId schedule s =
     (let s1 = s\<lparr>backupSchedules := (backupSchedules s)(jobId \<mapsto> schedule)\<rparr>
      in case config_save_err env of
           Some e \<Rightarrow> (Inl e, s1)
         | None \<Rightarrow> (Inr (), s1))"

definition removeScheduleFromConfig ::
  "sched_env \<Rightarrow> string \<Rightarrow> scheduler \<Rightarrow> (error + unit) \<times> scheduler" where
  "removeScheduleFromConfig env jobId s =
     (let s1 = s\<lparr>backupSchedules := (backupSchedules s)(jobId := None)\<rparr>
      in case config_save_err env of
           Some e \<Rightarrow> (Inl e, s1)
         | None \<Rightarrow> (Inr (), s1))"

text \<open>The body of the \<^verbatim>\<open>try\<close> block of \<^verbatim>\<open>scheduleBackup\<close> (lines 273-313).\<close>

definition scheduleBackup_try ::
  "sched_env \<Rightarrow> string \<Rightarrow> string \<Rightarrow> string \<Rightarrow> backup_options \<Rightarrow> scheduler
     \<Rightarrow> (error + string) \<times> scheduler" where
  "scheduleBackup_try env clusterName dbName cronPattern opts s =
     (let jobId = clusterName @ ''-'' @ dbName;
          stopped = (case scheduledJobs s jobId of
                       Some entry \<Rightarrow> entry_stop entry s
                     | None \<Rightarrow> (Inr (), s))
      in case stopped of
           (Inl e, s0) \<Rightarrow> (Inl e, s0)
         | (Inr _, s0) \<Rightarrow>
             (case cron_schedule env cronPattern clusterName dbName opts s0 of
                (Inl e, s1) \<Rightarrow> (Inl e, s1)
              | (Inr r, s1) \<Rightarrow>
                  (let s2 = s1\<lparr>scheduledJobs := (scheduledJobs s1)(jobId \<mapsto>
                                 \<lparr>job = r, se_cluster = clusterName, se_database = dbName,
                                  se_pattern = cronPattern, se_options = opts,
                                  se_createdAt = sched_now env\<rparr>)\<rparr>;
                       s3 = task_start r s2
                   in case saveScheduleToConfig env jobId
                             \<lparr>ps_cluster = clusterName, ps_database = dbName,
                              ps_pattern = cronPattern, ps_options = opts\<rparr> s3 of
                        (Inl e, s4) \<Rightarrow> (Inl e, s4)
                      | (Inr _, s4) \<Rightarrow>
                          (Inr jobId,
                           s4\<lparr>sched_log := sched_log s4 @
                                [LogInfo (''Scheduled backup created: '' @ jobId @ '' ('' @
                                          cronPattern @ '')'')]\<rparr>))))"

text \<open>\<^verbatim>\<open>scheduleBackup\<close> (lines 271-318): the \<^verbatim>\<open>catch\<close> logs the error and rethrows it.\<close>

definition scheduleBackup ::
  "sched_env \<Rightarrow> string \<Rightarrow> string \<Rightarrow> string \<Rightarrow> backup_options \<Rightarrow> scheduler
     \<Rightarrow> (error + string) \<times> scheduler" where
  "scheduleBackup env clusterName dbName cronPattern opts s =
     (case scheduleBackup_try env clusterName dbName cronPattern opts s of
        (Inl e, s') \<Rightarrow>
          (Inl e, s'\<lparr>sched_log := sched_log s' @ [LogError ''Failed to schedule backup:'' e]\<rparr>)
      | (Inr jobId, s') \<Rightarrow> (Inr jobId, s'))"

text \<open>
  \<^verbatim>\<open>unscheduleBackup\<close> (lines 320-329), the sibling that stops the task through the
  entry's \<^verbatim>\<open>job\<close> property. It has no \<^verbatim>\<open>try\<close>: a rejected save propagates as it is.
\<close>

definition unscheduleBackup ::
  "sched_env \<Rightarrow> string \<Rightarrow> scheduler \<Rightarrow> (error + bool) \<times> scheduler" where
  "unscheduleBackup env jobId s =
     (case scheduledJobs s jobId of
        Some entry \<Rightarrow>
          (let s1 = task_stop (job entry) s;
               s2 = s1\<lparr>scheduledJobs := (scheduledJobs s1)(jobId := None)\<rparr>
           in case removeScheduleFromConfig env jobId s2 of
                (Inl e, s3) \<Rightarrow> (Inl e, s3)
              | (Inr _, s3) \<Rightarrow>
                  (Inr True,
                   s3\<lparr>sched_log := sched_log s3 @ [LogInfo (''Unscheduled backup: '' @ jobId)]\<rparr>))
      | None \<Rightarrow> (Inr False, s))"

text \<open>The state of a freshly constructed manager (lines 7-13) and a well-behaved environment.\<close>

definition new_scheduler :: scheduler where
  "new_scheduler =
     \<lparr>scheduledJobs = Map.empty, tasks = [], backupSchedules = Map.empty, sched_log = []\<rparr>"

definition sched_env_ok :: sched_env where
  "sched_env_ok = \<lparr>cron_reject = (\<lambda>p. None), config_save_err = None, sched_now = 0\<rparr>"

text \<open>
  The state after \<^verbatim>\<open>scheduleBackup('c', 'd', '0 2 * * *', {compress: false})\<close> on a fresh
  manager.
\<close>

definition after_first_schedule :: scheduler where
  "after_first_schedule =
     snd (scheduleBackup sched_env_ok ''c'' ''d'' ''0 2 * * *'' \<lparr>compress = False\<rparr> new_scheduler)"

subsection \<open>Data model of a backup\<close>

type_synonym path = string

text \<open>A document and the key of an index are opaque JSON values.\<close>

type_synonym document = string

record index_spec =
  idx_name :: string
  idx_key :: string
  idx_unique :: "bool option"
  idx_sparse :: "bool option"

text \<open>The object written to \<^verbatim>\<open><collection>.json\<close> (lines 55-62).\<close>

record collectionData =
  cd_collection :: string
  cd_database :: string
  cd_cluster :: string
  documents :: "document list"
  indexes :: "index_spec list"
  stats :: string

text \<open>
  The two shapes of object pushed onto \<^verbatim>\<open>backupInfo.collections\<close>: lines 66-71
  (\<^verbatim>\<open>{name, documentCount, size, indexes}\<close>) and lines 79-82 (\<^verbatim>\<open>{name, error}\<close>).
\<close>

datatype CollectionRecord =
    Success string nat nat nat
  | Failure string string

fun record_name :: "CollectionRecord \<Rightarrow> string" where
  "record_name (Success n dc sz ic) = n"
| "record_name (Failure n msg) = n"

text \<open>The \<^verbatim>\<open>error\<close> property of a record: \<^verbatim>\<open>undefined\<close> on the first shape.\<close>

fun record_error :: "CollectionRecord \<Rightarrow> string option" where
  "record_error (Success n dc sz ic) = None"
| "record_error (Failure n msg) = Some msg"

text \<open>
  \<^verbatim>\<open>backupInfo\<close> (lines 36-43); \<^verbatim>\<open>compressed\<close> and \<^verbatim>\<open>archivePath\<close> are absent from the
  object until lines 98-99 add them.
\<close>

record backupInfo =
  bi_cluster :: string
  bi_database :: string
  bi_timestamp :: int
  collections :: "CollectionRecord list"
  totalDocuments :: nat
  totalSize :: nat
  compressed :: "bool option"
  archivePath :: "path option"

text \<open>The value \<^verbatim>\<open>createBackup\<close> resolves with (lines 104-110).\<close>

record backup_result =
  br_name :: string
  br_path :: path
  br_info :: backupInfo
  br_size :: nat
  br_collections :: nat

subsection \<open>The file system and the database\<close>

text \<open>
  What a regular file holds. A JSON file written by the manager is kept as the value that
  was serialised; \<open>OtherJson\<close> is a file that parses as JSON but is neither of the two
  shapes, \<open>Raw\<close> one that does not parse. An archive maps the paths relative to the
  archived directory to the files it bundles.
\<close>

datatype file_content =
    Raw string
  | OtherJson string
  | ManifestFile backupInfo
  | CollectionFile collectionData
  | Archive "string \<Rightarrow> file_content option"

text \<open>An operation the restore attempts on the target database.\<close>

datatype db_op =
    DropOp string
  | InsertManyOp string "document list"
  | CreateIndexOp string index_spec

record world =
  files :: "path \<rightharpoonup> file_content"
  dirs :: "path set"
  db_ops :: "db_op list"
  log :: "log_entry list"

text \<open>
  How a collection handle of the driver answers: the three reads of the snapshot, and
  whether \<^verbatim>\<open>insertMany\<close> and \<^verbatim>\<open>createIndex\<close> throw during the restore. Whether
  \<^verbatim>\<open>drop\<close> throws is not part of the handle: the code catches and ignores it (lines
  166-170).
\<close>

record collection_handle =
  find_all :: "error + document list"
  listIndexes :: "error + index_spec list"
  coll_stats :: "error + string"
  insertMany_err :: "document list \<Rightarrow> error option"
  createIndex_err :: "index_spec \<Rightarrow> error option"

record db_handle =
  listCollections :: "error + string list"
  collection :: "string \<Rightarrow> collection_handle"

text \<open>The result of \<^verbatim>\<open>fs.stat\<close>.\<close>

record fs_stats =
  isDirectory :: bool
  st_size :: nat
  mtime :: int

text \<open>
  The environment of a call: the backup root, the clock (as the ISO string of
  \<^verbatim>\<open>toISOString()\<close> and as a time value), the length of \<^verbatim>\<open>JSON.stringify\<close> of an export
  object, the cluster manager, the failures of the file-system calls and of the two archive
  libraries, the directory listing and the configured retention. Whether a file-system call
  fails is a function of the path it is given, fixed for the duration of one call of the
  manager.
\<close>

record env =
  backupDir :: path
  now_iso :: string
  now :: int
  json_length :: "collectionData \<Rightarrow> nat"
  getDatabase :: "string \<Rightarrow> string \<Rightarrow> error + db_handle"
  mkdir_err :: "path \<Rightarrow> error option"
  writeFile_err :: "path \<Rightarrow> error option"
  readFile_err :: "path \<Rightarrow> error option"
  rmdir_err :: "path \<Rightarrow> error option"
  unlink_err :: "path \<Rightarrow> error option"
  archive_err :: "path \<Rightarrow> error option"
  extract_err :: "path \<Rightarrow> error option"
  readdir :: "path \<Rightarrow> error + string list"
  stat :: "path \<Rightarrow> error + fs_stats"
  backupRetention :: "nat option"

text \<open>\<^verbatim>\<open>path.join\<close> of a directory and a name, and the paths below a directory.\<close>

definition join :: "path \<Rightarrow> string \<Rightarrow> path" where
  "join d n = d @ ''/'' @ n"

definition under :: "path \<Rightarrow> path \<Rightarrow> bool" where
  "under d p = (take (Suc (length d)) p = d @ ''/'')"

text \<open>\<^verbatim>\<open>String.prototype.endsWith\<close>.\<close>

definition endsWith :: "string \<Rightarrow> string \<Rightarrow> bool" where
  "endsWith s t = (length t \<le> length s \<and> drop (length s - length t) s = t)"

definition mkdir :: "env \<Rightarrow> path \<Rightarrow> world \<Rightarrow> (error + unit) \<times> world" where
  "mkdir env p w =
     (case mkdir_err env p of
        Some e \<Rightarrow> (Inl e, w)
      | None \<Rightarrow> (Inr (), w\<lparr>dirs := insert p (dirs w)\<rparr>))"

definition writeFile :: "env \<Rightarrow> path \<Rightarrow> file_content \<Rightarrow> world \<Rightarrow> (error + unit) \<times> world" where
  "writeFile env p c w =
     (case writeFile_err env p of
        Some e \<Rightarrow> (Inl e, w)
      | None \<Rightarrow> (Inr (), w\<lparr>files := (files w)(p \<mapsto> c)\<rparr>))"

definition readFile :: "env \<Rightarrow> path \<Rightarrow> world \<Rightarrow> error + file_content" where
  "readFile env p w =
     (case readFile_err env p of
        Some e \<Rightarrow> Inl e
      | None \<Rightarrow>
          (case files w p of
             None \<Rightarrow> Inl (Error (''ENOENT: no such file or directory, open '' @ p))
           | Some c \<Rightarrow> Inr c))"

text \<open>\<^verbatim>\<open>fs.rmdir(p, {recursive: true})\<close> removes the directory and everything below it.\<close>

definition rmdir :: "env \<Rightarrow> path \<Rightarrow> world \<Rightarrow> (error + unit) \<times> world" where
  "rmdir env p w =
     (case rmdir_err env p of
        Some e \<Rightarrow> (Inl e, w)
      | None \<Rightarrow>
          (Inr (), w\<lparr>dirs := {q \<in> dirs w. q \<noteq> p \<and> \<not> under p q},
                     files := (\<lambda>q. if under p q then None else files w q)\<rparr>))"

definition unlink :: "env \<Rightarrow> path \<Rightarrow> world \<Rightarrow> (error + unit) \<times> world" where
  "unlink env p w =
     (case unlink_err env p of
        Some e \<Rightarrow> (Inl e, w)
      | None \<Rightarrow>
          (case files w p of
             None \<Rightarrow> (Inl (Error (''ENOENT: no such file or directory, unlink '' @ p)), w)
           | Some c \<Rightarrow> (Inr (), w\<lparr>files := (files w)(p := None)\<rparr>)))"

text \<open>
  \<^verbatim>\<open>compressBackup\<close> (lines 117-132): the promise rejects on an error of the archive and
  resolves once the output stream has closed; the archive then holds every file below
  \<open>sourcePath\<close> under its relative path. These are the two outcomes modelled: a promise
  that never settles is not. The byte count of the log line is left out.
\<close>

definition compressBackup :: "env \<Rightarrow> path \<Rightarrow> path \<Rightarrow> world \<Rightarrow> (error + unit) \<times> world" where
  "compressBackup env sourcePath targetPath w =
     (case archive_err env targetPath of
        Some e \<Rightarrow> (Inl e, w)
      | None \<Rightarrow>
          (Inr (),
           w\<lparr>files := (files w)(targetPath \<mapsto> Archive (\<lambda>rel. files w (join sourcePath rel))),
             log := log w @ [LogInfo ''Backup compressed'']\<rparr>))"

text \<open>\<^verbatim>\<open>extract(zipPath, {dir})\<close> of the library \<^verbatim>\<open>extract-zip\<close>.\<close>

definition extract_zip :: "env \<Rightarrow> path \<Rightarrow> path \<Rightarrow> world \<Rightarrow> (error + unit) \<times> world" where
  "extract_zip env zipPath dir w =
     (case extract_err env zipPath of
        Some e \<Rightarrow> (Inl e, w)
      | None \<Rightarrow>
          (case files w zipPath of
             Some (Archive a) \<Rightarrow>
               (Inr (),
                w\<lparr>dirs := insert dir (dirs w),
                  files := (\<lambda>q. if under dir q
                                 then (case a (drop (Suc (length dir)) q) of
                                         Some c \<Rightarrow> Some c
                                       | None \<Rightarrow> files w q)
                                 else files w q)\<rparr>)
           | _ \<Rightarrow> (Inl (Error ''end of central directory record signature not found''), w)))"

subsection \<open>createBackup\<close>

text \<open>
  The \<^verbatim>\<open>try\<close> block of one loop iteration up to the write of the export file (lines
  51-64): the documents, then the indexes, then the statistics, whose failure alone is
  replaced by an empty object, then the file. Line 64 serialises and writes in one
  statement; a throw of either is the failure of the write.
\<close>

definition snapshot_collection ::
  "env \<Rightarrow> db_handle \<Rightarrow> path \<Rightarrow> string \<Rightarrow> string \<Rightarrow> string \<Rightarrow> world
     \<Rightarrow> (error + collectionData) \<times> world" where
  "snapshot_collection env db backupPath clusterName dbName collectionName w =
     (let coll = collection db collectionName
      in case find_all coll of
           Inl e \<Rightarrow> (Inl e, w)
         | Inr docs \<Rightarrow>
             (let collectionFile = join backupPath (collectionName @ ''.json'')
              in case listIndexes coll of
                   Inl e \<Rightarrow> (Inl e, w)
                 | Inr idxs \<Rightarrow>
                     (let st = (case coll_stats coll of Inl e \<Rightarrow> ''{}'' | Inr v \<Rightarrow> v);
                          collectionData =
                            \<lparr>cd_collection = collectionName, cd_database = dbName,
                             cd_cluster = clusterName, documents = docs, indexes = idxs,
                             stats = st\<rparr>
                      in case writeFile env collectionFile (CollectionFile collectionData) w of
                           (Inl e, w') \<Rightarrow> (Inl e, w')
                         | (Inr u, w') \<Rightarrow> (Inr collectionData, w'))))"

text \<open>
  The loop of lines 47-84 over the enumerated collection names. The count of documents in
  the log line is left out.
\<close>

fun backup_loop ::
  "env \<Rightarrow> db_handle \<Rightarrow> path \<Rightarrow> string \<Rightarrow> string \<Rightarrow> string list \<Rightarrow> backupInfo \<Rightarrow> world
     \<Rightarrow> backupInfo \<times> world" where
  "backup_loop env db backupPath clusterName dbName [] backupInfo w = (backupInfo, w)"
| "backup_loop env db backupPath clusterName dbName (collectionName # rest) backupInfo w =
     (case snapshot_collection env db backupPath clusterName dbName collectionName w of
        (Inr collectionData, w') \<Rightarrow>
          backup_loop env db backupPath clusterName dbName rest
            (backupInfo
               \<lparr>collections := collections backupInfo @
                    [Success collectionName (length (documents collectionData))
                       (json_length env collectionData) (length (indexes collectionData))],
                totalDocuments := totalDocuments backupInfo + length (documents collectionData),
                totalSize := totalSize backupInfo + json_length env collectionData\<rparr>)
            (w'\<lparr>log := log w' @ [LogInfo (''Backed up collection: '' @ collectionName)]\<rparr>)
      | (Inl e, w') \<Rightarrow>
          backup_loop env db backupPath clusterName dbName rest
            (backupInfo
               \<lparr>collections := collections backupInfo @ [Failure collectionName (message e)]\<rparr>)
            (w'\<lparr>log := log w' @
                   [LogError (''Failed to backup collection '' @ collectionName @ '':'') e]\<rparr>))"

text \<open>The timestamp of the backup name: colons and dots of the ISO string become dashes.\<close>

definition fs_safe :: "string \<Rightarrow> string" where
  "fs_safe t = map (\<lambda>c. if c = CHR '':'' \<or> c = CHR ''.'' then CHR ''-'' else c) t"

definition backup_name :: "env \<Rightarrow> string \<Rightarrow> string \<Rightarrow> string" where
  "backup_name env clusterName dbName = clusterName @ ''-'' @ dbName @ ''-'' @ fs_safe (now_iso env)"

text \<open>Lines 90-100: the archive, the removal of the directory, and the two new fields.\<close>

definition compress_step ::
  "env \<Rightarrow> backup_options \<Rightarrow> path \<Rightarrow> backupInfo \<Rightarrow> world \<Rightarrow> (error + backupInfo) \<times> world" where
  "compress_step env opts backupPath backupInfo w =
     (if compress opts then
        (let archPath = backupPath @ ''.zip''
         in case compressBackup env backupPath archPath w of
              (Inl e, w1) \<Rightarrow> (Inl e, w1)
            | (Inr u, w1) \<Rightarrow>
                (case rmdir env backupPath w1 of
                   (Inl e, w2) \<Rightarrow> (Inl e, w2)
                 | (Inr u', w2) \<Rightarrow>
                     (Inr (backupInfo\<lparr>compressed := Some True, archivePath := Some archPath\<rparr>),
                      w2)))
      else (Inr backupInfo, w))"

text \<open>The \<^verbatim>\<open>try\<close> block of \<^verbatim>\<open>createBackup\<close> (lines 27-110).\<close>

definition createBackup_try ::
  "env \<Rightarrow> string \<Rightarrow> string \<Rightarrow> backup_options \<Rightarrow> world \<Rightarrow> (error + backup_result) \<times> world" where
  "createBackup_try env clusterName dbName opts w =
     (let backupName = backup_name env clusterName dbName;
          backupPath = join (backupDir env) backupName
      in case mkdir env backupPath w of
           (Inl e, w1) \<Rightarrow> (Inl e, w1)
         | (Inr u, w1) \<Rightarrow>
             (case getDatabase env clusterName dbName of
                Inl e \<Rightarrow> (Inl e, w1)
              | Inr db \<Rightarrow>
                  (case listCollections db of
                     Inl e \<Rightarrow> (Inl e, w1)
                   | Inr names \<Rightarrow>
                       (let backupInfo0 =
                              \<lparr>bi_cluster = clusterName, bi_database = dbName,
                               bi_timestamp = now env, collections = [],
                               totalDocuments = 0, totalSize = 0,
                               compressed = None, archivePath = None\<rparr>;
                            w2 = w1\<lparr>log := log w1 @
                                   [LogInfo (''Starting backup for '' @ clusterName @ ''/'' @
                                             dbName)]\<rparr>
                        in case backup_loop env db backupPath clusterName dbName names
                                  backupInfo0 w2 of
                             (backupInfo1, w3) \<Rightarrow>
                               (case writeFile env (join backupPath ''backup-info.json'')
                                       (ManifestFile backupInfo1) w3 of
                                  (Inl e, w4) \<Rightarrow> (Inl e, w4)
                                | (Inr u', w4) \<Rightarrow>
                                    (case compress_step env opts backupPath backupInfo1 w4 of
                                       (Inl e, w5) \<Rightarrow> (Inl e, w5)
                                     | (Inr backupInfo2, w5) \<Rightarrow>
                                         (Inr \<lparr>br_name = backupName,
                                               br_path = (if compress opts
                                                          then backupPath @ ''.zip''
                                                          else backupPath),
                                               br_info = backupInfo2,
                                               br_size = totalSize backupInfo2,
                                               br_collections =
                                                 length (collections backupInfo2)\<rparr>,
                                          w5\<lparr>log := log w5 @
                                               [LogInfo (''Backup completed: '' @
                                                         backupName)]\<rparr>)))))))"

text \<open>\<^verbatim>\<open>createBackup\<close> (lines 25-115): the \<^verbatim>\<open>catch\<close> logs the error and rethrows it.\<close>

definition createBackup ::
  "env \<Rightarrow> string \<Rightarrow> string \<Rightarrow> backup_options \<Rightarrow> world \<Rightarrow> (error + backup_result) \<times> world" where
  "createBackup env clusterName dbName opts w =
     (case createBackup_try env clusterName dbName opts w of
        (Inl e, w') \<Rightarrow>
          (Inl e,
           w'\<lparr>log := log w' @
                [LogError (''Backup failed for '' @ clusterName @ ''/'' @ dbName @ '':'') e]\<rparr>)
      | (Inr r, w') \<Rightarrow> (Inr r, w'))"

subsection \<open>restoreBackup\<close>

record restore_options =
  dropExisting :: bool

text \<open>An element of \<^verbatim>\<open>restoredCollections\<close> (lines 194-198); \<^verbatim>\<open>indexes\<close> may be negative.\<close>

record restored_collection =
  rc_name :: string
  rc_documents :: nat
  rc_indexes :: int

record restore_result =
  restoredCollections :: "restored_collection list"
  sourceBackup :: backupInfo
  target_cluster :: string
  target_database :: string

text \<open>
  The truth value JavaScript gives the \<^verbatim>\<open>error\<close> property in \<^verbatim>\<open>if (collectionInfo.error)\<close>:
  \<^verbatim>\<open>undefined\<close> and the empty string are falsy, every other string is truthy.
\<close>

definition truthy :: "string option \<Rightarrow> bool" where
  "truthy v = (case v of None \<Rightarrow> False | Some msg \<Rightarrow> msg \<noteq> [])"

text \<open>
  \<^verbatim>\<open>JSON.parse\<close> of a file read as a manifest or as an export: it throws on a file that is not
  JSON; on JSON of another shape it returns an object in which the properties the code goes on
  to read are \<^verbatim>\<open>undefined\<close> (the result \<open>None\<close>).
\<close>

fun parse_manifest :: "file_content \<Rightarrow> error + backupInfo option" where
  "parse_manifest (ManifestFile m) = Inr (Some m)"
| "parse_manifest (CollectionFile d) = Inr None"
| "parse_manifest (OtherJson t) = Inr None"
| "parse_manifest (Raw t) = Inl (Error ''Unexpected token in JSON'')"
| "parse_manifest (Archive a) = Inl (Error ''Unexpected token in JSON'')"

fun parse_export :: "file_content \<Rightarrow> error + collectionData option" where
  "parse_export (CollectionFile d) = Inr (Some d)"
| "parse_export (ManifestFile m) = Inr None"
| "parse_export (OtherJson t) = Inr None"
| "parse_export (Raw t) = Inl (Error ''Unexpected token in JSON'')"
| "parse_export (Archive a) = Inl (Error ''Unexpected token in JSON'')"

text \<open>
  Lines 179-192: every index but \<^verbatim>\<open>_id_\<close> is recreated; a failure is logged as a warning
  and the loop goes on.
\<close>

fun restore_indexes :: "collection_handle \<Rightarrow> string \<Rightarrow> index_spec list \<Rightarrow> world \<Rightarrow> world" where
  "restore_indexes coll cname [] w = w"
| "restore_indexes coll cname (idx # rest) w =
     (if idx_name idx = ''_id_'' then restore_indexes coll cname rest w
      else
        (let w1 = w\<lparr>db_ops := db_ops w @ [CreateIndexOp cname idx]\<rparr>
         in case createIndex_err coll idx of
              Some e \<Rightarrow>
                restore_indexes coll cname rest
                  (w1\<lparr>log := log w1 @
                        [LogWarn (''Failed to restore index '' @ idx_name idx @ '':'')
                           (message e)]\<rparr>)
            | None \<Rightarrow> restore_indexes coll cname rest w1))"

text \<open>
  Lines 165-176: the optional drop, whose failure is swallowed, and the insertion of the
  documents when there are any; \<open>Some e\<close> is the error \<^verbatim>\<open>insertMany\<close> throws.
\<close>

definition drop_existing :: "restore_options \<Rightarrow> string \<Rightarrow> world \<Rightarrow> world" where
  "drop_existing opts cname w =
     (if dropExisting opts then w\<lparr>db_ops := db_ops w @ [DropOp cname]\<rparr> else w)"

definition insert_documents ::
  "collection_handle \<Rightarrow> string \<Rightarrow> document list \<Rightarrow> world \<Rightarrow> error option \<times> world" where
  "insert_documents coll cname docs w =
     (if 0 < length docs
      then (insertMany_err coll docs, w\<lparr>db_ops := db_ops w @ [InsertManyOp cname docs]\<rparr>)
      else (None, w))"

text \<open>The inner \<^verbatim>\<open>try\<close> block of one iteration of the restore loop (lines 161-200).\<close>

definition restore_collection_try ::
  "env \<Rightarrow> db_handle \<Rightarrow> path \<Rightarrow> restore_options \<Rightarrow> string \<Rightarrow> world
     \<Rightarrow> (error + restored_collection) \<times> world" where
  "restore_collection_try env db dir opts cname w =
     (case readFile env (join dir (cname @ ''.json'')) w of
        Inl e \<Rightarrow> (Inl e, w)
      | Inr content \<Rightarrow>
          (case parse_export content of
             Inl e \<Rightarrow> (Inl e, w)
           | Inr parsed \<Rightarrow>
               (let coll = collection db cname;
                    w1 = drop_existing opts cname w
                in case parsed of
                     None \<Rightarrow> (Inl (Error ''Cannot read properties of undefined (reading length)''), w1)
                   | Some collectionData \<Rightarrow>
                       (case insert_documents coll cname (documents collectionData) w1 of
                          (Some e, w2) \<Rightarrow> (Inl e, w2)
                        | (None, w2) \<Rightarrow>
                            (let w3 = restore_indexes coll cname (indexes collectionData) w2
                             in (Inr \<lparr>rc_name = cname,
                                      rc_documents = length (documents collectionData),
                                      rc_indexes = int (length (indexes collectionData)) - 1\<rparr>,
                                 w3\<lparr>log := log w3 @
                                      [LogInfo (''Restored collection: '' @ cname)]\<rparr>))))))"

text \<open>
  One iteration of the loop of lines 155-204: the \<^verbatim>\<open>continue\<close> of line 156, else the
  \<^verbatim>\<open>try\<close> block, whose \<^verbatim>\<open>catch\<close> logs and goes on. The result is the element pushed
  onto \<^verbatim>\<open>restoredCollections\<close>, if any.
\<close>

definition restore_collection ::
  "env \<Rightarrow> db_handle \<Rightarrow> path \<Rightarrow> restore_options \<Rightarrow> CollectionRecord \<Rightarrow> world
     \<Rightarrow> restored_collection option \<times> world" where
  "restore_collection env db dir opts collectionInfo w =
     (if truthy (record_error collectionInfo) then (None, w)
      else
        (case restore_collection_try env db dir opts (record_name collectionInfo) w of
           (Inl e, w') \<Rightarrow>
             (None,
              w'\<lparr>log := log w' @
                   [LogError (''Failed to restore collection '' @ record_name collectionInfo @ '':'')
                      e]\<rparr>)
         | (Inr rc, w') \<Rightarrow> (Some rc, w')))"

fun restore_loop ::
  "env \<Rightarrow> db_handle \<Rightarrow> path \<Rightarrow> restore_options \<Rightarrow> CollectionRecord list
     \<Rightarrow> restored_collection list \<Rightarrow> world \<Rightarrow> restored_collection list \<times> world" where
  "restore_loop env db dir opts [] restored w = (restored, w)"
| "restore_loop env db dir opts (collectionInfo # rest) restored w =
     (case restore_collection env db dir opts collectionInfo w of
        (Some rc, w') \<Rightarrow> restore_loop env db dir opts rest (restored @ [rc]) w'
      | (None, w') \<Rightarrow> restore_loop env db dir opts rest restored w')"

text \<open>Lines 136-144: an archive is expanded into the scratch directory \<^verbatim>\<open>temp-restore\<close>.\<close>

definition tempDir :: "env \<Rightarrow> path" where
  "tempDir env = join (backupDir env) ''temp-restore''"

definition expand_source :: "env \<Rightarrow> path \<Rightarrow> world \<Rightarrow> (error + path) \<times> world" where
  "expand_source env backupPath w =
     (if endsWith backupPath ''.zip'' then
        (case extract_zip env backupPath (tempDir env) w of
           (Inl e, w1) \<Rightarrow> (Inl e, w1)
         | (Inr u, w1) \<Rightarrow> (Inr (tempDir env), w1))
      else (Inr backupPath, w))"

text \<open>Lines 206-209: the removal of the scratch directory.\<close>

definition cleanup_temp :: "env \<Rightarrow> path \<Rightarrow> path \<Rightarrow> world \<Rightarrow> (error + unit) \<times> world" where
  "cleanup_temp env backupPath dir w =
     (if endsWith backupPath ''.zip'' then rmdir env dir w else (Inr (), w))"

text \<open>The \<^verbatim>\<open>try\<close> block of \<^verbatim>\<open>restoreBackup\<close> (lines 136-217).\<close>

definition restoreBackup_try ::
  "env \<Rightarrow> path \<Rightarrow> string \<Rightarrow> string \<Rightarrow> restore_options \<Rightarrow> world
     \<Rightarrow> (error + restore_result) \<times> world" where
  "restoreBackup_try env backupPath targetCluster targetDatabase opts w =
     (case expand_source env backupPath w of
        (Inl e, w1) \<Rightarrow> (Inl e, w1)
      | (Inr dir, w1) \<Rightarrow>
          (case readFile env (join dir ''backup-info.json'') w1 of
             Inl e \<Rightarrow> (Inl e, w1)
           | Inr content \<Rightarrow>
               (case parse_manifest content of
                  Inl e \<Rightarrow> (Inl e, w1)
                | Inr parsed \<Rightarrow>
                    (case getDatabase env targetCluster targetDatabase of
                       Inl e \<Rightarrow> (Inl e, w1)
                     | Inr db \<Rightarrow>
                         (let w2 = w1\<lparr>log := log w1 @
                                     [LogInfo (''Starting restore to '' @ targetCluster @ ''/'' @
                                               targetDatabase)]\<rparr>
                          in case parsed of
                               None \<Rightarrow>
                                 (Inl (Error ''backupInfo.collections is not iterable''), w2)
                             | Some backupInfo \<Rightarrow>
                                 (case restore_loop env db dir opts (collections backupInfo)
                                         [] w2 of
                                    (restored, w3) \<Rightarrow>
                                      (case cleanup_temp env backupPath dir w3 of
                                         (Inl e, w4) \<Rightarrow> (Inl e, w4)
                                       | (Inr u, w4) \<Rightarrow>
                                           (Inr \<lparr>restoredCollections = restored,
                                                 sourceBackup = backupInfo,
                                                 target_cluster = targetCluster,
                                                 target_database = targetDatabase\<rparr>,
                                            w4\<lparr>log := log w4 @
                                                 [LogInfo ''Restore completed'']\<rparr>))))))))"

text \<open>\<^verbatim>\<open>restoreBackup\<close> (lines 134-222): the \<^verbatim>\<open>catch\<close> logs the error and rethrows it.\<close>

definition restoreBackup ::
  "env \<Rightarrow> path \<Rightarrow> string \<Rightarrow> string \<Rightarrow> restore_options \<Rightarrow> world
     \<Rightarrow> (error + restore_result) \<times> world" where
  "restoreBackup env backupPath targetCluster targetDatabase opts w =
     (case restoreBackup_try env backupPath targetCluster targetDatabase opts w of
        (Inl e, w') \<Rightarrow> (Inl e, w'\<lparr>log := log w' @ [LogError ''Restore failed:'' e]\<rparr>)
      | (Inr r, w') \<Rightarrow> (Inr r, w'))"

subsection \<open>listBackups\<close>

text \<open>
  An element of the list \<^verbatim>\<open>listBackups\<close> returns: lines 238-248 for a directory, lines
  254-260 for an archive, which has no \<^verbatim>\<open>cluster\<close>, \<^verbatim>\<open>database\<close>, \<^verbatim>\<open>collections\<close> or
  \<^verbatim>\<open>totalDocuments\<close>. The creation time is kept as a time value.
\<close>

record backup_descriptor =
  bd_name :: string
  bd_path :: path
  bd_created :: int
  bd_cluster :: "string option"
  bd_database :: "string option"
  bd_collections :: "nat option"
  bd_totalDocuments :: "nat option"
  bd_size :: nat
  bd_compressed :: bool

text \<open>\<^verbatim>\<open>s.replace(pat, '')\<close> with a string pattern: the first occurrence is removed.\<close>

fun remove_first :: "string \<Rightarrow> string \<Rightarrow> string" where
  "remove_first pat [] = []"
| "remove_first pat (c # cs) =
     (if take (length pat) (c # cs) = pat then drop (length pat) (c # cs)
      else c # remove_first pat cs)"

text \<open>
  Lines 235-236 inside their \<^verbatim>\<open>try\<close>: the manifest of a directory, or \<open>None\<close> when reading
  it, parsing it or reading \<^verbatim>\<open>collections.length\<close> throws.
\<close>

definition read_manifest :: "env \<Rightarrow> path \<Rightarrow> world \<Rightarrow> backupInfo option" where
  "read_manifest env filePath w =
     (case readFile env (join filePath ''backup-info.json'') w of
        Inl e \<Rightarrow> None
      | Inr content \<Rightarrow>
          (case parse_manifest content of
             Inl e \<Rightarrow> None
           | Inr parsed \<Rightarrow> parsed))"

text \<open>
  The loop of lines 229-262. \<^verbatim>\<open>fs.stat\<close> is outside the inner \<^verbatim>\<open>try\<close>: when it throws, the
  whole listing fails.
\<close>

fun list_loop ::
  "env \<Rightarrow> world \<Rightarrow> string list \<Rightarrow> backup_descriptor list \<Rightarrow> error + backup_descriptor list" where
  "list_loop env w [] backups = Inr backups"
| "list_loop env w (file # rest) backups =
     (let filePath = join (backupDir env) file
      in case stat env filePath of
           Inl e \<Rightarrow> Inl e
         | Inr fstat \<Rightarrow>
             (if isDirectory fstat then
                (case read_manifest env filePath w of
                   Some backupInfo \<Rightarrow>
                     list_loop env w rest
                       (backups @
                          [\<lparr>bd_name = file, bd_path = filePath,
                            bd_created = bi_timestamp backupInfo,
                            bd_cluster = Some (bi_cluster backupInfo),
                            bd_database = Some (bi_database backupInfo),
                            bd_collections = Some (length (collections backupInfo)),
                            bd_totalDocuments = Some (totalDocuments backupInfo),
                            bd_size = st_size fstat, bd_compressed = False\<rparr>])
                 | None \<Rightarrow> list_loop env w rest backups)
              else if endsWith file ''.zip'' then
                list_loop env w rest
                  (backups @
                     [\<lparr>bd_name = remove_first ''.zip'' file, bd_path = filePath,
                       bd_created = mtime fstat, bd_cluster = None, bd_database = None,
                       bd_collections = None, bd_totalDocuments = None,
                       bd_size = st_size fstat, bd_compressed = True\<rparr>])
              else list_loop env w rest backups))"

text \<open>
  \<^verbatim>\<open>listBackups\<close> (lines 224-269). The final sort is stable and puts the later creation
  time first.
\<close>

definition listBackups :: "env \<Rightarrow> world \<Rightarrow> (error + backup_descriptor list) \<times> world" where
  "listBackups env w =
     (case (case readdir env (backupDir env) of
              Inl e \<Rightarrow> Inl e
            | Inr entries \<Rightarrow> list_loop env w entries []) of
        Inl e \<Rightarrow> (Inl e, w\<lparr>log := log w @ [LogError ''Failed to list backups:'' e]\<rparr>)
      | Inr backups \<Rightarrow> (Inr (sort_key (\<lambda>b. - bd_created b) backups), w))"

subsection \<open>cleanupOldBackups\<close>

text \<open>
  Line 375, \<^verbatim>\<open>retentionDays || getSetting('backupRetention') || 30\<close>: a missing or zero value
  falls through to the next one.
\<close>

definition retention_days :: "env \<Rightarrow> nat option \<Rightarrow> nat" where
  "retention_days env retentionDays =
     (let configured = (case backupRetention env of
                          None \<Rightarrow> 30
                        | Some n \<Rightarrow> if n = 0 then 30 else n)
      in case retentionDays of
           None \<Rightarrow> configured
         | Some n \<Rightarrow> if n = 0 then configured else n)"

text \<open>The cutoff of lines 376-377, with a day of 86400000 milliseconds.\<close>

definition cutoffDate :: "env \<Rightarrow> nat option \<Rightarrow> int" where
  "cutoffDate env retentionDays = now env - int (retention_days env retentionDays) * 86400000"

text \<open>The loop of lines 385-396: a failed deletion is logged and the loop goes on.\<close>

definition delete_backup :: "env \<Rightarrow> backup_descriptor \<Rightarrow> world \<Rightarrow> (error + unit) \<times> world" where
  "delete_backup env backup w =
     (if bd_compressed backup then unlink env (bd_path backup) w
      else rmdir env (bd_path backup) w)"

fun cleanup_loop :: "env \<Rightarrow> backup_descriptor list \<Rightarrow> world \<Rightarrow> world" where
  "cleanup_loop env [] w = w"
| "cleanup_loop env (backup # rest) w =
     (case delete_backup env backup w of
        (Inl e, w') \<Rightarrow>
          cleanup_loop env rest
            (w'\<lparr>log := log w' @
                  [LogError (''Failed to cleanup backup '' @ bd_name backup @ '':'') e]\<rparr>)
      | (Inr u, w') \<Rightarrow>
          cleanup_loop env rest
            (w'\<lparr>log := log w' @ [LogInfo (''Cleaned up old backup: '' @ bd_name backup)]\<rparr>))"

text \<open>\<^verbatim>\<open>cleanupOldBackups\<close> (lines 374-403).\<close>

definition cleanupOldBackups :: "env \<Rightarrow> nat option \<Rightarrow> world \<Rightarrow> (error + nat) \<times> world" where
  "cleanupOldBackups env retentionDays w =
     (case listBackups env w of
        (Inl e, w1) \<Rightarrow> (Inl e, w1\<lparr>log := log w1 @ [LogError ''Backup cleanup failed:'' e]\<rparr>)
      | (Inr backups, w1) \<Rightarrow>
          (let oldBackups = filter (\<lambda>backup. bd_created backup < cutoffDate env retentionDays)
                              backups
           in (Inr (length oldBackups), cleanup_loop env oldBackups w1)))"

section \<open>Notions used in the statements\<close>

text \<open>The directory a call of \<^verbatim>\<open>createBackup\<close> writes to (lines 28-29).\<close>

definition backup_path :: "env \<Rightarrow> string \<Rightarrow> string \<Rightarrow> path" where
  "backup_path env clusterName dbName = join (backupDir env) (backup_name env clusterName dbName)"

text \<open>
  Whether the snapshot of one collection succeeds does not depend on the files already
  written (lemma \<open>snapshot_fst\<close>), so its outcome can be read off a run in the empty world:
  the export object, or the error that ends the iteration.
\<close>

definition empty_world :: world where
  "empty_world = \<lparr>files = Map.empty, dirs = {}, db_ops = [], log = []\<rparr>"

definition snapshot_outcome ::
  "env \<Rightarrow> db_handle \<Rightarrow> path \<Rightarrow> string \<Rightarrow> string \<Rightarrow> string \<Rightarrow> error + collectionData" where
  "snapshot_outcome env db backupPath clusterName dbName collectionName =
     fst (snapshot_collection env db backupPath clusterName dbName collectionName empty_world)"

text \<open>
  The record a collection is expected to leave in the manifest: the failure record with the
  message of the error, or the success record with the counts of the export object.
\<close>

definition record_of ::
  "env \<Rightarrow> db_handle \<Rightarrow> path \<Rightarrow> string \<Rightarrow> string \<Rightarrow> string \<Rightarrow> CollectionRecord" where
  "record_of env db backupPath clusterName dbName collectionName =
     (case snapshot_outcome env db backupPath clusterName dbName collectionName of
        Inl e \<Rightarrow> Failure collectionName (message e)
      | Inr collectionData \<Rightarrow>
          Success collectionName (length (documents collectionData))
            (json_length env collectionData) (length (indexes collectionData)))"

text \<open>
  The specification's size of a backup: the sum, over the collections that were snapshotted
  successfully, of the size of the serialised export object. It does not mention the options.
\<close>

definition payload_size ::
  "env \<Rightarrow> db_handle \<Rightarrow> path \<Rightarrow> string \<Rightarrow> string \<Rightarrow> string \<Rightarrow> nat" where
  "payload_size env db backupPath clusterName dbName collectionName =
     (case snapshot_outcome env db backupPath clusterName dbName collectionName of
        Inl e \<Rightarrow> 0
      | Inr collectionData \<Rightarrow> json_length env collectionData)"

definition logical_size ::
  "env \<Rightarrow> db_handle \<Rightarrow> path \<Rightarrow> string \<Rightarrow> string \<Rightarrow> string list \<Rightarrow> nat" where
  "logical_size env db backupPath clusterName dbName names =
     sum_list (map (payload_size env db backupPath clusterName dbName) names)"

text \<open>The manifest that an archive at \<open>zipPath\<close> bundles as \<^verbatim>\<open>backup-info.json\<close>.\<close>

definition manifest_in_archive :: "world \<Rightarrow> path \<Rightarrow> backupInfo option" where
  "manifest_in_archive w zipPath =
     (case files w zipPath of
        Some (Archive a) \<Rightarrow>
          (case a ''backup-info.json'' of
             Some (ManifestFile m) \<Rightarrow> Some m
           | _ \<Rightarrow> None)
      | _ \<Rightarrow> None)"

text \<open>
  The manifest in the directory \<open>dir\<close>, and the manifest a backup made with the options
  \<open>opts\<close> persists at the path \<open>p\<close> of its result.
\<close>

definition manifest_in_directory :: "world \<Rightarrow> path \<Rightarrow> backupInfo option" where
  "manifest_in_directory w dir =
     (case files w (join dir ''backup-info.json'') of
        Some (ManifestFile m) \<Rightarrow> Some m
      | _ \<Rightarrow> None)"

definition persisted_manifest :: "backup_options \<Rightarrow> world \<Rightarrow> path \<Rightarrow> backupInfo option" where
  "persisted_manifest opts w p =
     (if compress opts then manifest_in_archive w p else manifest_in_directory w p)"

text \<open>The directory the restore reads from: the scratch directory for an archive.\<close>

definition restore_dir :: "env \<Rightarrow> path \<Rightarrow> path" where
  "restore_dir env backupPath = (if endsWith backupPath ''.zip'' then tempDir env else backupPath)"

text \<open>The collection a database operation is attempted on.\<close>

fun op_collection :: "db_op \<Rightarrow> string" where
  "op_collection (DropOp n) = n"
| "op_collection (InsertManyOp n docs) = n"
| "op_collection (CreateIndexOp n idx) = n"

text \<open>
  The operations attempted between two states, and the frame of a step of the restore: it
  leaves files and directories alone and only attempts operations on collections of \<open>S\<close>.
\<close>

definition new_ops :: "world \<Rightarrow> world \<Rightarrow> db_op list" where
  "new_ops w w' = drop (length (db_ops w)) (db_ops w')"

definition frame :: "string set \<Rightarrow> world \<Rightarrow> world \<Rightarrow> bool" where
  "frame S w w' =
     (files w' = files w \<and> dirs w' = dirs w \<and> db_ops w' = db_ops w @ new_ops w w'
      \<and> op_collection ` set (new_ops w w') \<subseteq> S)"

text \<open>The records of a manifest that line 156 does not skip.\<close>

definition kept :: "CollectionRecord list \<Rightarrow> CollectionRecord list" where
  "kept recs = filter (\<lambda>r. \<not> truthy (record_error r)) recs"

text \<open>The same file system with the \<^verbatim>\<open>totalSize\<close> of every manifest replaced.\<close>

definition with_totalSize :: "(backupInfo \<Rightarrow> nat) \<Rightarrow> world \<Rightarrow> world" where
  "with_totalSize f w =
     w\<lparr>files := (\<lambda>p. case files w p of
                       Some (ManifestFile m) \<Rightarrow> Some (ManifestFile (m\<lparr>totalSize := f m\<rparr>))
                     | other \<Rightarrow> other)\<rparr>"

section \<open>Concrete inputs\<close>

subsection \<open>A database with one collection whose index listing throws\<close>

definition idx_id :: index_spec where
  "idx_id = \<lparr>idx_name = ''_id_'', idx_key = ''{_id:1}'', idx_unique = None, idx_sparse = None\<rparr>"

definition idx_email :: index_spec where
  "idx_email = \<lparr>idx_name = ''email_1'', idx_key = ''{email:1}'', idx_unique = Some True,
                idx_sparse = None\<rparr>"

definition demo_users :: collection_handle where
  "demo_users =
     \<lparr>find_all = Inr [''{_id:1}'', ''{_id:2}''], listIndexes = Inr [idx_id, idx_email],
      coll_stats = Inr ''{count:2}'', insertMany_err = (\<lambda>docs. None),
      createIndex_err = (\<lambda>idx. None)\<rparr>"

definition demo_orders :: collection_handle where
  "demo_orders =
     \<lparr>find_all = Inr [''{_id:7}''], listIndexes = Inl (Error ''index listing failed''),
      coll_stats = Inr ''{count:1}'', insertMany_err = (\<lambda>docs. None),
      createIndex_err = (\<lambda>idx. None)\<rparr>"

definition demo_db :: db_handle where
  "demo_db =
     \<lparr>listCollections = Inr [''users'', ''orders''],
      collection = (\<lambda>n. if n = ''users'' then demo_users else demo_orders)\<rparr>"

text \<open>An environment in which no file-system call and no archive library fails.\<close>

definition demo_env :: env where
  "demo_env =
     \<lparr>backupDir = ''backups'', now_iso = ''2024-01-02T03:04:05.678Z'', now = 1704164645678,
      json_length = (\<lambda>cd. 100 + 10 * length (documents cd)),
      getDatabase = (\<lambda>c d. Inr demo_db),
      mkdir_err = (\<lambda>p. None), writeFile_err = (\<lambda>p. None), readFile_err = (\<lambda>p. None),
      rmdir_err = (\<lambda>p. None), unlink_err = (\<lambda>p. None), archive_err = (\<lambda>p. None),
      extract_err = (\<lambda>p. None), readdir = (\<lambda>p. Inr []),
      stat = (\<lambda>p. Inl (Error ''ENOENT'')), backupRetention = None\<rparr>"

text \<open>The same environment with an archiver whose stream fails.\<close>

definition archive_fails_env :: env where
  "archive_fails_env = demo_env\<lparr>archive_err := (\<lambda>p. Some (Error ''archive stream failed''))\<rparr>"

definition start_world :: world where
  "start_world = \<lparr>files = Map.empty, dirs = {''backups''}, db_ops = [], log = []\<rparr>"

text \<open>What \<^verbatim>\<open>createBackup('c', 'd', options)\<close> resolves with there, plain and compressed.\<close>

definition demo_plain_result :: backup_result where
  "demo_plain_result =
     \<lparr>br_name = ''c-d-2024-01-02T03-04-05-678Z'',
      br_path = ''backups/c-d-2024-01-02T03-04-05-678Z'',
      br_info =
        \<lparr>bi_cluster = ''c'', bi_database = ''d'', bi_timestamp = 1704164645678,
         collections = [Success ''users'' 2 120 2, Failure ''orders'' ''index listing failed''],
         totalDocuments = 2, totalSize = 120, compressed = None, archivePath = None\<rparr>,
      br_size = 120, br_collections = 2\<rparr>"

definition demo_zip_result :: backup_result where
  "demo_zip_result =
     \<lparr>br_name = ''c-d-2024-01-02T03-04-05-678Z'',
      br_path = ''backups/c-d-2024-01-02T03-04-05-678Z.zip'',
      br_info =
        \<lparr>bi_cluster = ''c'', bi_database = ''d'', bi_timestamp = 1704164645678,
         collections = [Success ''users'' 2 120 2, Failure ''orders'' ''index listing failed''],
         totalDocuments = 2, totalSize = 120, compressed = Some True,
         archivePath = Some ''backups/c-d-2024-01-02T03-04-05-678Z.zip''\<rparr>,
      br_size = 120, br_collections = 2\<rparr>"

subsection \<open>A backup root to restore from\<close>

definition users_export :: collectionData where
  "users_export =
     \<lparr>cd_collection = ''users'', cd_database = ''d'', cd_cluster = ''c'',
      documents = [''{_id:1}'', ''{_id:2}''], indexes = [idx_id, idx_email],
      stats = ''{count:2}''\<rparr>"

definition orders_export :: collectionData where
  "orders_export =
     \<lparr>cd_collection = ''orders'', cd_database = ''d'', cd_cluster = ''c'',
      documents = [''{_id:7}''], indexes = [idx_id], stats = ''{}''\<rparr>"

definition logs_export :: collectionData where
  "logs_export =
     \<lparr>cd_collection = ''logs'', cd_database = ''d'', cd_cluster = ''c'',
      documents = [], indexes = [], stats = ''{}''\<rparr>"

text \<open>
  The manifest of backup \<^verbatim>\<open>b1\<close> lists a failed collection with the message of its error;
  the manifest of \<^verbatim>\<open>b2\<close> lists one whose error had the empty message.
\<close>

definition manifest_b1 :: backupInfo where
  "manifest_b1 =
     \<lparr>bi_cluster = ''c'', bi_database = ''d'', bi_timestamp = 1704164645678,
      collections = [Success ''users'' 2 120 2, Failure ''orders'' ''index listing failed'',
                     Success ''logs'' 0 100 0],
      totalDocuments = 2, totalSize = 220, compressed = None, archivePath = None\<rparr>"

definition manifest_b2 :: backupInfo where
  "manifest_b2 =
     \<lparr>bi_cluster = ''c'', bi_database = ''d'', bi_timestamp = 1704164645678,
      collections = [Failure ''orders'' []],
      totalDocuments = 0, totalSize = 0, compressed = None, archivePath = None\<rparr>"

definition archive_b1 :: "string \<Rightarrow> file_content option" where
  "archive_b1 =
     [''backup-info.json'' \<mapsto> ManifestFile manifest_b1,
      ''users.json'' \<mapsto> CollectionFile users_export,
      ''orders.json'' \<mapsto> CollectionFile orders_export,
      ''logs.json'' \<mapsto> CollectionFile logs_export]"

text \<open>An archive whose manifest is not JSON.\<close>

definition archive_bad :: "string \<Rightarrow> file_content option" where
  "archive_bad = [''backup-info.json'' \<mapsto> Raw ''{'']"

definition restore_world :: world where
  "restore_world =
     \<lparr>files =
        [''backups/b1/backup-info.json'' \<mapsto> ManifestFile manifest_b1,
         ''backups/b1/users.json'' \<mapsto> CollectionFile users_export,
         ''backups/b1/orders.json'' \<mapsto> CollectionFile orders_export,
         ''backups/b1/logs.json'' \<mapsto> CollectionFile logs_export,
         ''backups/b2/backup-info.json'' \<mapsto> ManifestFile manifest_b2,
         ''backups/b2/orders.json'' \<mapsto> CollectionFile orders_export,
         ''backups/b1.zip'' \<mapsto> Archive archive_b1,
         ''backups/bad.zip'' \<mapsto> Archive archive_bad],
      dirs = {''backups'', ''backups/b1'', ''backups/b2''}, db_ops = [], log = []\<rparr>"

text \<open>What restoring \<^verbatim>\<open>b1\<close>, and restoring \<^verbatim>\<open>b2\<close>, resolves with.\<close>

definition restored_b1 :: restore_result where
  "restored_b1 =
     \<lparr>restoredCollections =
        [\<lparr>rc_name = ''users'', rc_documents = 2, rc_indexes = 1\<rparr>,
         \<lparr>rc_name = ''logs'', rc_documents = 0, rc_indexes = - 1\<rparr>],
      sourceBackup = manifest_b1, target_cluster = ''c2'', target_database = ''d2''\<rparr>"

definition restored_b2 :: restore_result where
  "restored_b2 =
     \<lparr>restoredCollections = [\<lparr>rc_name = ''orders'', rc_documents = 1, rc_indexes = 0\<rparr>],
      sourceBackup = manifest_b2, target_cluster = ''c2'', target_database = ''d2''\<rparr>"

subsection \<open>A backup root with two backups past the cutoff\<close>

text \<open>
  The clock stands at 1704164645678. The directory \<^verbatim>\<open>old\<close> and the archive \<^verbatim>\<open>old2.zip\<close>
  are 35 days old, the directory \<^verbatim>\<open>recent\<close> is less than a second old, and every
  \<^verbatim>\<open>fs.rmdir\<close> is refused.
\<close>

definition cleanup_env :: env where
  "cleanup_env =
     demo_env
       \<lparr>readdir := (\<lambda>p. Inr [''old'', ''old2.zip'', ''recent'']),
        stat := (\<lambda>p. if p = ''backups/old''
                      then Inr \<lparr>isDirectory = True, st_size = 4096, mtime = 1701140645678\<rparr>
                      else if p = ''backups/old2.zip''
                      then Inr \<lparr>isDirectory = False, st_size = 512, mtime = 1701140645678\<rparr>
                      else if p = ''backups/recent''
                      then Inr \<lparr>isDirectory = True, st_size = 4096, mtime = 1704164645000\<rparr>
                      else Inl (Error ''ENOENT'')),
        rmdir_err := (\<lambda>p. Some (Error ''Permission denied''))\<rparr>"

definition manifest_old :: backupInfo where
  "manifest_old =
     \<lparr>bi_cluster = ''c'', bi_database = ''d'', bi_timestamp = 1701140645678,
      collections = [Success ''users'' 2 120 2], totalDocuments = 2, totalSize = 120,
      compressed = None, archivePath = None\<rparr>"

definition manifest_recent :: backupInfo where
  "manifest_recent =
     \<lparr>bi_cluster = ''c'', bi_database = ''d'', bi_timestamp = 1704164645000,
      collections = [Success ''users'' 2 120 2], totalDocuments = 2, totalSize = 120,
      compressed = None, archivePath = None\<rparr>"

definition cleanup_world :: world where
  "cleanup_world =
     \<lparr>files =
        [''backups/old/backup-info.json'' \<mapsto> ManifestFile manifest_old,
         ''backups/old/users.json'' \<mapsto> CollectionFile users_export,
         ''backups/recent/backup-info.json'' \<mapsto> ManifestFile manifest_recent,
         ''backups/old2.zip'' \<mapsto> Archive archive_b1],
      dirs = {''backups'', ''backups/old'', ''backups/recent''}, db_ops = [], log = []\<rparr>"

definition old_descriptor :: backup_descriptor where
  "old_descriptor =
     \<lparr>bd_name = ''old'', bd_path = ''backups/old'', bd_created = 1701140645678,
      bd_cluster = Some ''c'', bd_database = Some ''d'', bd_collections = Some 1,
      bd_totalDocuments = Some 2, bd_size = 4096, bd_compressed = False\<rparr>"

definition listed_backups :: "backup_descriptor list" where
  "listed_backups =
     [\<lparr>bd_name = ''recent'', bd_path = ''backups/recent'', bd_created = 1704164645000,
       bd_cluster = Some ''c'', bd_database = Some ''d'', bd_collections = Some 1,
       bd_totalDocuments = Some 2, bd_size = 4096, bd_compressed = False\<rparr>,
      old_descriptor,
      \<lparr>bd_name = ''old2'', bd_path = ''backups/old2.zip'', bd_created = 1701140645678,
       bd_cluster = None, bd_database = None, bd_collections = None,
       bd_totalDocuments = None, bd_size = 512, bd_compressed = True\<rparr>]"

section \<open>Scheduler: rescheduling the same pair\<close>

lemma first_schedule_state:
  "scheduleBackup sched_env_ok ''c'' ''d'' ''0 2 * * *'' \<lparr>compress = False\<rparr> new_scheduler =
     (Inr ''c-d'',
      \<lparr>scheduledJobs = [''c-d'' \<mapsto> \<lparr>job = 0, se_cluster = ''c'', se_database = ''d'',
                                   se_pattern = ''0 2 * * *'',
                                   se_options = \<lparr>compress = False\<rparr>, se_createdAt = 0\<rparr>],
       tasks = [\<lparr>task_pattern = ''0 2 * * *'', task_cluster = ''c'', task_database = ''d'',
                 task_options = \<lparr>compress = False\<rparr>, running = True\<rparr>],
       backupSchedules = [''c-d'' \<mapsto> \<lparr>ps_cluster = ''c'', ps_database = ''d'',
                                     ps_pattern = ''0 2 * * *'',
                                     ps_options = \<lparr>compress = False\<rparr>\<rparr>],
       sched_log = [LogInfo ''Scheduled backup created: c-d (0 2 * * *)'']\<rparr>)"
  by (simp add: scheduleBackup_def scheduleBackup_try_def cron_schedule_def task_start_def
      saveScheduleToConfig_def new_scheduler_def sched_env_ok_def Let_def)

text \<open>
  Whenever the table already holds an entry for the pair, \<^verbatim>\<open>scheduleBackup\<close> rejects, and
  neither the table nor any task changes.
\<close>

lemma scheduleBackup_existing_rejects:
  assumes "scheduledJobs s (c @ ''-'' @ d) = Some entry"
  shows "\<exists>e s'. scheduleBackup env c d p opts s = (Inl e, s')
           \<and> scheduledJobs s' = scheduledJobs s \<and> tasks s' = tasks s
           \<and> backupSchedules s' = backupSchedules s"
  using assms by (simp add: scheduleBackup_def scheduleBackup_try_def entry_stop_def Let_def)

text \<open>
  The sibling \<^verbatim>\<open>unscheduleBackup\<close> reaches the task through the entry's \<^verbatim>\<open>job\<close>
  property: after it the task no longer runs and the entry is gone.
\<close>

lemma unschedule_stops_task:
  "fst (unscheduleBackup sched_env_ok ''c-d'' after_first_schedule) = Inr True
   \<and> map running (tasks (snd (unscheduleBackup sched_env_ok ''c-d'' after_first_schedule)))
       = [False]
   \<and> scheduledJobs (snd (unscheduleBackup sched_env_ok ''c-d'' after_first_schedule)) ''c-d''
       = None"
  unfolding after_first_schedule_def first_schedule_state
  by (simp add: unscheduleBackup_def task_stop_def removeScheduleFromConfig_def
      sched_env_ok_def Let_def)

text \<open>
  C1. The claim: scheduling the pair \<open>(c, d)\<close> a second time succeeds, cancels the first
  trigger and leaves one entry with the second pattern and options. Evaluated at
  \<^verbatim>\<open>scheduleBackup('c', 'd', '0 2 * * *', {})\<close> followed by
  \<^verbatim>\<open>scheduleBackup('c', 'd', '0 3 * * *', {compress: true})\<close>, the code does otherwise: the
  second call rejects with the TypeError of line 277, the first task is still running, and
  the entry for \<^verbatim>\<open>c-d\<close> still carries the first pattern and options.
\<close>

theorem C1_second_schedule_rejects:
  "fst (scheduleBackup sched_env_ok ''c'' ''d'' ''0 3 * * *'' \<lparr>compress = True\<rparr>
          after_first_schedule)
     = Inl (Error ''this.scheduledJobs.get(...).stop is not a function'')
   \<and> map running
       (tasks (snd (scheduleBackup sched_env_ok ''c'' ''d'' ''0 3 * * *'' \<lparr>compress = True\<rparr>
                      after_first_schedule))) = [True]
   \<and> map_option se_pattern
       (scheduledJobs (snd (scheduleBackup sched_env_ok ''c'' ''d'' ''0 3 * * *''
                              \<lparr>compress = True\<rparr> after_first_schedule)) ''c-d'')
       = Some ''0 2 * * *''
   \<and> map_option se_options
       (scheduledJobs (snd (scheduleBackup sched_env_ok ''c'' ''d'' ''0 3 * * *''
                              \<lparr>compress = True\<rparr> after_first_schedule)) ''c-d'')
       = Some \<lparr>compress = False\<rparr>"
  unfolding after_first_schedule_def first_schedule_state
  by (simp add: scheduleBackup_def scheduleBackup_try_def entry_stop_def Let_def)

section \<open>createBackup: the manifest and the result\<close>

subsection \<open>One iteration\<close>

text \<open>The outcome of a snapshot is the same in every state of the file system.\<close>

lemma snapshot_fst:
  "fst (snapshot_collection env db bp c d n w) = snapshot_outcome env db bp c d n"
  by (simp add: snapshot_outcome_def snapshot_collection_def writeFile_def Let_def
      split: sum.splits option.splits)

text \<open>
  It fails with the error of the first step that throws: reading the documents, listing the
  indexes, writing the export file. A failure of the statistics is not among them.
\<close>

lemma snapshot_outcome_cases:
  "snapshot_outcome env db bp c d n =
     (case find_all (collection db n) of
        Inl e \<Rightarrow> Inl e
      | Inr docs \<Rightarrow>
          (case listIndexes (collection db n) of
             Inl e \<Rightarrow> Inl e
           | Inr idxs \<Rightarrow>
               (case writeFile_err env (join bp (n @ ''.json'')) of
                  Some e \<Rightarrow> Inl e
                | None \<Rightarrow>
                    Inr \<lparr>cd_collection = n, cd_database = d, cd_cluster = c, documents = docs,
                         indexes = idxs,
                         stats = (case coll_stats (collection db n) of
                                    Inl e \<Rightarrow> ''{}'' | Inr v \<Rightarrow> v)\<rparr>)))"
  by (simp add: snapshot_outcome_def snapshot_collection_def writeFile_def Let_def
      split: sum.splits option.splits)

lemma record_of_name: "record_name (record_of env db bp c d n) = n"
  by (simp add: record_of_def split: sum.splits)

subsection \<open>The loop\<close>

lemma backup_loop_collections:
  "collections (fst (backup_loop env db bp c d names bi w)) =
     collections bi @ map (record_of env db bp c d) names"
proof (induction names arbitrary: bi w)
  case Nil
  show ?case by simp
next
  case (Cons n ns)
  obtain res w1 where sc: "snapshot_collection env db bp c d n w = (res, w1)"
    by (cases "snapshot_collection env db bp c d n w")
  then have out: "snapshot_outcome env db bp c d n = res"
    using snapshot_fst [of env db bp c d n w] by simp
  show ?case
    by (cases res) (simp_all add: sc Cons.IH record_of_def out)
qed

lemma backup_loop_totalSize:
  "totalSize (fst (backup_loop env db bp c d names bi w)) =
     totalSize bi + sum_list (map (payload_size env db bp c d) names)"
proof (induction names arbitrary: bi w)
  case Nil
  show ?case by simp
next
  case (Cons n ns)
  obtain res w1 where sc: "snapshot_collection env db bp c d n w = (res, w1)"
    by (cases "snapshot_collection env db bp c d n w")
  then have out: "snapshot_outcome env db bp c d n = res"
    using snapshot_fst [of env db bp c d n w] by simp
  show ?case
    by (cases res) (simp_all add: sc Cons.IH payload_size_def out)
qed

lemma backup_loop_flags:
  "compressed (fst (backup_loop env db bp c d names bi w)) = compressed bi
   \<and> archivePath (fst (backup_loop env db bp c d names bi w)) = archivePath bi"
proof (induction names arbitrary: bi w)
  case Nil
  show ?case by simp
next
  case (Cons n ns)
  obtain res w1 where sc: "snapshot_collection env db bp c d n w = (res, w1)"
    by (cases "snapshot_collection env db bp c d n w")
  show ?case
    by (cases res) (simp_all add: sc Cons.IH)
qed

lemma backup_loop_result:
  assumes "backup_loop env db bp c d names bi w = (bi1, w1)"
  shows "collections bi1 = collections bi @ map (record_of env db bp c d) names"
    and "totalSize bi1 = totalSize bi + sum_list (map (payload_size env db bp c d) names)"
    and "compressed bi1 = compressed bi"
    and "archivePath bi1 = archivePath bi"
  using assms backup_loop_collections [of env db bp c d names bi w]
    backup_loop_totalSize [of env db bp c d names bi w]
    backup_loop_flags [of env db bp c d names bi w]
  by simp_all

subsection \<open>A call that resolves\<close>

lemma compress_step_Inr:
  assumes "compress_step env opts bp bi w = (Inr bi2, w')"
  shows "bi2 = (if compress opts
                then bi\<lparr>compressed := Some True, archivePath := Some (bp @ ''.zip'')\<rparr>
                else bi)"
  using assms
  by (auto simp: compress_step_def Let_def split: if_splits prod.splits sum.splits)

lemma createBackup_fst:
  assumes "fst (createBackup env c d opts w) = Inr r"
  shows "createBackup env c d opts w = (Inr r, snd (createBackup env c d opts w))"
  using assms by (cases "createBackup env c d opts w") simp

lemma createBackup_Inr:
  assumes ok: "createBackup env c d opts w = (Inr r, w')"
    and db: "getDatabase env c d = Inr db"
    and names: "listCollections db = Inr names"
  shows "collections (br_info r) = map (record_of env db (backup_path env c d) c d) names"
    and "totalSize (br_info r)
           = sum_list (map (payload_size env db (backup_path env c d) c d) names)"
    and "br_size r = totalSize (br_info r)"
    and "br_collections r = length (collections (br_info r))"
proof -
  from ok have t: "createBackup_try env c d opts w = (Inr r, w')"
    by (auto simp: createBackup_def split: prod.splits sum.splits)
  define bp where "bp = backup_path env c d"
  from t db names obtain bi1 w2 w3 where
    loop: "backup_loop env db bp c d names
             \<lparr>bi_cluster = c, bi_database = d, bi_timestamp = now env, collections = [],
              totalDocuments = 0, totalSize = 0, compressed = None, archivePath = None\<rparr> w2
           = (bi1, w3)"
    and r: "r = \<lparr>br_name = backup_name env c d,
                 br_path = (if compress opts then bp @ ''.zip'' else bp),
                 br_info = (if compress opts
                            then bi1\<lparr>compressed := Some True,
                                     archivePath := Some (bp @ ''.zip'')\<rparr>
                            else bi1),
                 br_size = totalSize bi1,
                 br_collections = length (collections bi1)\<rparr>"
    by (auto simp: createBackup_try_def Let_def backup_path_def bp_def
        split: prod.splits sum.splits dest!: compress_step_Inr)
  note res = backup_loop_result [OF loop]
  show "collections (br_info r) = map (record_of env db (backup_path env c d) c d) names"
    using res by (simp add: r bp_def)
  show "totalSize (br_info r)
          = sum_list (map (payload_size env db (backup_path env c d) c d) names)"
    using res by (simp add: r bp_def)
  show "br_size r = totalSize (br_info r)" by (simp add: r)
  show "br_collections r = length (collections (br_info r))" by (simp add: r)
qed

text \<open>
  The call resolves when the directory is created, the database is resolved and its
  collections are enumerated, the manifest is written and, for a compressed backup, the
  archive is written and the directory removed.
\<close>

lemma createBackup_succeeds:
  assumes db: "getDatabase env c d = Inr db"
    and names: "listCollections db = Inr names"
    and mk: "mkdir_err env (backup_path env c d) = None"
    and wr: "writeFile_err env (join (backup_path env c d) ''backup-info.json'') = None"
    and zip: "compress opts \<longrightarrow> archive_err env (backup_path env c d @ ''.zip'') = None
                \<and> rmdir_err env (backup_path env c d) = None"
  shows "\<exists>r. fst (createBackup env c d opts w) = Inr r"
  using assms
  by (auto simp: createBackup_def createBackup_try_def Let_def backup_path_def mkdir_def
      writeFile_def compress_step_def compressBackup_def rmdir_def split: prod.splits)

subsection \<open>The manifest file\<close>

lemma not_under_zip: "\<not> under bp (bp @ ''.zip'')"
  by (simp add: under_def)

lemma compress_step_archive:
  assumes "compress_step env opts bp bi w = (Inr bi2, w')" and "compress opts"
  shows "files w' (bp @ ''.zip'') = Some (Archive (\<lambda>rel. files w (join bp rel)))"
  using assms
  by (auto simp: compress_step_def compressBackup_def rmdir_def Let_def not_under_zip
      split: if_splits prod.splits sum.splits option.splits)

lemma writeFile_Inr:
  assumes "writeFile env p content w = (Inr u, w')"
  shows "files w' p = Some content"
  using assms by (auto simp: writeFile_def split: option.splits)

lemma compress_step_plain:
  assumes "compress_step env opts bp bi w = (Inr bi2, w')" and "\<not> compress opts"
  shows "w' = w"
  using assms by (simp add: compress_step_def)

text \<open>
  The manifest file is written before the archiver runs, from the object as the loop left
  it; what lines 98-99 add afterwards is on the returned object only.
\<close>

lemma createBackup_persisted:
  assumes ok: "fst (createBackup env c d opts w) = Inr r"
  shows "persisted_manifest opts (snd (createBackup env c d opts w)) (br_path r)
           = Some ((br_info r)\<lparr>compressed := None, archivePath := None\<rparr>)"
    and "compressed (br_info r) = (if compress opts then Some True else None)"
    and "archivePath (br_info r) = (if compress opts then Some (br_path r) else None)"
proof -
  define w' where "w' = snd (createBackup env c d opts w)"
  from ok have "createBackup env c d opts w = (Inr r, w')"
    unfolding w'_def by (rule createBackup_fst)
  then obtain w5 where t: "createBackup_try env c d opts w = (Inr r, w5)"
    and w': "files w' = files w5"
    by (auto simp: createBackup_def split: prod.splits sum.splits)
  define bp where "bp = backup_path env c d"
  from t obtain db names bi1 bi2 w2 w3 w4 w6 where
    loop: "backup_loop env db bp c d names
             \<lparr>bi_cluster = c, bi_database = d, bi_timestamp = now env, collections = [],
              totalDocuments = 0, totalSize = 0, compressed = None, archivePath = None\<rparr> w2
           = (bi1, w3)"
    and wr: "writeFile env (join bp ''backup-info.json'') (ManifestFile bi1) w3 = (Inr (), w4)"
    and cs: "compress_step env opts bp bi1 w4 = (Inr bi2, w6)"
    and w5: "files w5 = files w6"
    and r: "br_path r = (if compress opts then bp @ ''.zip'' else bp)" "br_info r = bi2"
    by (auto simp: createBackup_try_def Let_def backup_path_def bp_def
        split: prod.splits sum.splits)
  note res = backup_loop_result [OF loop]
  have written: "files w4 (join bp ''backup-info.json'') = Some (ManifestFile bi1)"
    by (rule writeFile_Inr [OF wr])
  have bi2: "bi2 = (if compress opts
                    then bi1\<lparr>compressed := Some True, archivePath := Some (bp @ ''.zip'')\<rparr>
                    else bi1)"
    by (rule compress_step_Inr [OF cs])
  have reset: "bi2\<lparr>compressed := None, archivePath := None\<rparr> = bi1"
    using res(3) res(4) by (cases bi1) (simp add: bi2)
  show "compressed (br_info r) = (if compress opts then Some True else None)"
    using res(3) by (simp add: r bi2)
  show "archivePath (br_info r) = (if compress opts then Some (br_path r) else None)"
    using res(4) by (simp add: r bi2)
  show "persisted_manifest opts (snd (createBackup env c d opts w)) (br_path r)
           = Some ((br_info r)\<lparr>compressed := None, archivePath := None\<rparr>)"
  proof (cases "compress opts")
    case True
    have "files w' (bp @ ''.zip'') = Some (Archive (\<lambda>rel. files w4 (join bp rel)))"
      using compress_step_archive [OF cs True] w' w5 by simp
    with written have "manifest_in_archive w' (bp @ ''.zip'') = Some bi1"
      by (simp add: manifest_in_archive_def)
    with True show ?thesis
      by (simp add: persisted_manifest_def r reset w'_def)
  next
    case False
    have "w6 = w4" by (rule compress_step_plain [OF cs False])
    with written w' w5 have "manifest_in_directory w' bp = Some bi1"
      by (simp add: manifest_in_directory_def)
    with False show ?thesis
      by (simp add: persisted_manifest_def r reset w'_def)
  qed
qed

subsection \<open>The calls on the concrete database\<close>

lemmas demo_defs = demo_env_def start_world_def demo_db_def demo_users_def demo_orders_def
  idx_id_def idx_email_def

lemmas backup_defs = createBackup_def createBackup_try_def Let_def backup_name_def fs_safe_def
  join_def mkdir_def writeFile_def snapshot_collection_def compress_step_def compressBackup_def
  rmdir_def under_def

lemma demo_plain:
  "fst (createBackup demo_env ''c'' ''d'' \<lparr>compress = False\<rparr> start_world) = Inr demo_plain_result"
  by (simp add: backup_defs demo_defs demo_plain_result_def)

lemma demo_zip:
  "fst (createBackup demo_env ''c'' ''d'' \<lparr>compress = True\<rparr> start_world) = Inr demo_zip_result"
  by (simp add: backup_defs demo_defs demo_zip_result_def)

lemma demo_getDatabase: "getDatabase demo_env ''c'' ''d'' = Inr demo_db"
  by (simp add: demo_env_def)

lemma demo_listCollections: "listCollections demo_db = Inr [''users'', ''orders'']"
  by (simp add: demo_db_def)

lemma demo_orders_outcome:
  "snapshot_outcome demo_env demo_db (backup_path demo_env ''c'' ''d'') ''c'' ''d'' ''orders''
     = Inl (Error ''index listing failed'')"
  by (simp add: snapshot_outcome_cases demo_db_def demo_orders_def)

subsection \<open>One record per enumerated collection\<close>

text \<open>
  C2. When \<^verbatim>\<open>createBackup\<close> resolves for a database whose enumeration gave the names
  \<open>names\<close>, the manifest holds exactly one record per name, in the order of the
  enumeration: for a collection whose snapshot failed with the error \<open>e\<close> the record
  \<^verbatim>\<open>{name, error: e.message}\<close>, which carries no document data, and for every other the
  success record of its export. The number of records does not depend on how many fail,
  and the manifest file of the backup holds the same records.
\<close>

theorem C2_one_record_per_collection:
  assumes "fst (createBackup env c d opts w) = Inr r"
    and "getDatabase env c d = Inr db"
    and "listCollections db = Inr names"
  shows "length (collections (br_info r)) = length names
       \<and> map record_name (collections (br_info r)) = names
       \<and> (\<forall>i<length names.
            case snapshot_outcome env db (backup_path env c d) c d (names ! i) of
              Inl e \<Rightarrow> collections (br_info r) ! i = Failure (names ! i) (message e)
            | Inr cd \<Rightarrow>
                collections (br_info r) ! i =
                  Success (names ! i) (length (documents cd)) (json_length env cd)
                    (length (indexes cd)))
       \<and> map_option collections
           (persisted_manifest opts (snd (createBackup env c d opts w)) (br_path r))
           = Some (collections (br_info r))"
proof -
  note cb = createBackup_Inr [OF createBackup_fst [OF assms(1)] assms(2) assms(3)]
  have cols: "collections (br_info r) = map (record_of env db (backup_path env c d) c d) names"
    by (rule cb(1))
  have "map record_name (collections (br_info r)) = names"
    unfolding cols by (induction names) (simp_all add: record_of_name)
  moreover have "length (collections (br_info r)) = length names"
    unfolding cols by simp
  moreover have "\<forall>i<length names.
            case snapshot_outcome env db (backup_path env c d) c d (names ! i) of
              Inl e \<Rightarrow> collections (br_info r) ! i = Failure (names ! i) (message e)
            | Inr cd \<Rightarrow>
                collections (br_info r) ! i =
                  Success (names ! i) (length (documents cd)) (json_length env cd)
                    (length (indexes cd))"
    unfolding cols by (simp add: record_of_def split: sum.splits)
  moreover have "map_option collections
           (persisted_manifest opts (snd (createBackup env c d opts w)) (br_path r))
           = Some (collections (br_info r))"
    by (simp add: createBackup_persisted(1) [OF assms(1)])
  ultimately show ?thesis by blast
qed

text \<open>
  The theorem at the concrete database: two collections are enumerated, the index listing of
  \<^verbatim>\<open>orders\<close> throws, and the manifest has two records, the second the failure record.
\<close>

theorem C2_witness:
  "fst (createBackup demo_env ''c'' ''d'' \<lparr>compress = False\<rparr> start_world) = Inr demo_plain_result
   \<and> getDatabase demo_env ''c'' ''d'' = Inr demo_db
   \<and> listCollections demo_db = Inr [''users'', ''orders'']
   \<and> length (collections (br_info demo_plain_result)) = 2
   \<and> map record_name (collections (br_info demo_plain_result)) = [''users'', ''orders'']
   \<and> snapshot_outcome demo_env demo_db (backup_path demo_env ''c'' ''d'') ''c'' ''d'' ''orders''
       = Inl (Error ''index listing failed'')
   \<and> collections (br_info demo_plain_result) ! 1 = Failure ''orders'' ''index listing failed''
   \<and> map_option collections
        (manifest_in_directory
           (snd (createBackup demo_env ''c'' ''d'' \<lparr>compress = False\<rparr> start_world))
           ''backups/c-d-2024-01-02T03-04-05-678Z'')
       = Some [Success ''users'' 2 120 2, Failure ''orders'' ''index listing failed'']"
proof -
  note h1 = demo_plain and h2 = demo_getDatabase and h3 = demo_listCollections
    and h4 = demo_orders_outcome
  note c2 = C2_one_record_per_collection [OF h1 h2 h3]
  from c2 have len: "length (collections (br_info demo_plain_result)) = 2"
    and nms: "map record_name (collections (br_info demo_plain_result)) = [''users'', ''orders'']"
    by simp_all
  from c2 have "\<forall>i<length [''users'', ''orders''].
      case snapshot_outcome demo_env demo_db (backup_path demo_env ''c'' ''d'') ''c'' ''d''
             ([''users'', ''orders''] ! i) of
        Inl e \<Rightarrow> collections (br_info demo_plain_result) ! i
                   = Failure ([''users'', ''orders''] ! i) (message e)
      | Inr cd \<Rightarrow> collections (br_info demo_plain_result) ! i =
               Success ([''users'', ''orders''] ! i) (length (documents cd))
                 (json_length demo_env cd) (length (indexes cd))"
    by blast
  from this [rule_format, of 1] h4
  have rec: "collections (br_info demo_plain_result) ! 1
               = Failure ''orders'' ''index listing failed''"
    by simp
  from c2 have "map_option collections
        (persisted_manifest \<lparr>compress = False\<rparr>
           (snd (createBackup demo_env ''c'' ''d'' \<lparr>compress = False\<rparr> start_world))
           (br_path demo_plain_result))
       = Some (collections (br_info demo_plain_result))"
    by blast
  then have onfile: "map_option collections
        (manifest_in_directory
           (snd (createBackup demo_env ''c'' ''d'' \<lparr>compress = False\<rparr> start_world))
           ''backups/c-d-2024-01-02T03-04-05-678Z'')
       = Some [Success ''users'' 2 120 2, Failure ''orders'' ''index listing failed'']"
    by (simp add: persisted_manifest_def demo_plain_result_def)
  from len nms rec onfile h1 h2 h3 h4 show ?thesis by blast
qed

subsection \<open>A failed collection does not abort the backup\<close>

text \<open>
  C3, as stated, promises that the call resolves whenever the directory is created and the
  manifest is written. On the concrete database with \<^verbatim>\<open>compress: true\<close> and an archiver
  whose stream fails, the directory is created, the index listing of \<^verbatim>\<open>orders\<close> throws,
  the manifest is written, and the call rejects with the archiver's error.
\<close>

theorem C3_counterexample:
  "mkdir_err archive_fails_env ''backups/c-d-2024-01-02T03-04-05-678Z'' = None
   \<and> writeFile_err archive_fails_env ''backups/c-d-2024-01-02T03-04-05-678Z/backup-info.json''
       = None
   \<and> listIndexes (collection demo_db ''orders'') = Inl (Error ''index listing failed'')
   \<and> ''backups/c-d-2024-01-02T03-04-05-678Z''
       \<in> dirs (snd (createBackup archive_fails_env ''c'' ''d'' \<lparr>compress = True\<rparr> start_world))
   \<and> files (snd (createBackup archive_fails_env ''c'' ''d'' \<lparr>compress = True\<rparr> start_world))
        ''backups/c-d-2024-01-02T03-04-05-678Z/backup-info.json''
       = Some (ManifestFile (br_info demo_plain_result))
   \<and> fst (createBackup archive_fails_env ''c'' ''d'' \<lparr>compress = True\<rparr> start_world)
       = Inl (Error ''archive stream failed'')"
  by (simp add: backup_defs demo_defs archive_fails_env_def demo_plain_result_def)

text \<open>
  C3, amended. Let the database resolve and its enumeration give \<open>names\<close>, and let the
  creation of the directory, the write of the manifest and, when \<^verbatim>\<open>options.compress\<close> is
  set, the archiving and the removal of the uncompressed directory succeed. Then
  \<^verbatim>\<open>createBackup\<close> resolves, its \<^verbatim>\<open>collections\<close> count is the number of enumerated
  collections, failed ones included, and every collection whose documents cannot be read,
  or whose documents are read and whose indexes cannot be listed, is in the manifest at its
  place as \<^verbatim>\<open>{name, error}\<close> with the message of the error thrown.
\<close>

theorem C3_partial_failure_does_not_abort:
  assumes db: "getDatabase env c d = Inr db"
    and names: "listCollections db = Inr names"
    and mk: "mkdir_err env (backup_path env c d) = None"
    and wr: "writeFile_err env (join (backup_path env c d) ''backup-info.json'') = None"
    and zip: "compress opts \<longrightarrow> archive_err env (backup_path env c d @ ''.zip'') = None
                \<and> rmdir_err env (backup_path env c d) = None"
  shows "\<exists>r. fst (createBackup env c d opts w) = Inr r
           \<and> br_collections r = length names
           \<and> (\<forall>i<length names. \<forall>e.
                 find_all (collection db (names ! i)) = Inl e
                 \<or> (\<exists>docs. find_all (collection db (names ! i)) = Inr docs)
                    \<and> listIndexes (collection db (names ! i)) = Inl e
                 \<longrightarrow> collections (br_info r) ! i = Failure (names ! i) (message e))"
proof -
  from createBackup_succeeds [OF assms] obtain r
    where ok: "fst (createBackup env c d opts w) = Inr r" ..
  note cb = createBackup_Inr [OF createBackup_fst [OF ok] db names]
  have cols: "collections (br_info r) = map (record_of env db (backup_path env c d) c d) names"
    by (rule cb(1))
  have "br_collections r = length names"
    using cb(4) cols by simp
  moreover have "collections (br_info r) ! i = Failure (names ! i) (message e)"
    if "i < length names"
      and "find_all (collection db (names ! i)) = Inl e
           \<or> (\<exists>docs. find_all (collection db (names ! i)) = Inr docs)
              \<and> listIndexes (collection db (names ! i)) = Inl e" for i e
    using that unfolding cols
    by (auto simp: record_of_def snapshot_outcome_cases)
  ultimately show ?thesis using ok by blast
qed

text \<open>
  The amended statement at the concrete database, compressed: every step outside the loop
  succeeds, the index listing of \<^verbatim>\<open>orders\<close> throws, and the call resolves with a count of
  two and the failure record of \<^verbatim>\<open>orders\<close>.
\<close>

theorem C3_witness:
  "getDatabase demo_env ''c'' ''d'' = Inr demo_db
   \<and> listCollections demo_db = Inr [''users'', ''orders'']
   \<and> mkdir_err demo_env (backup_path demo_env ''c'' ''d'') = None
   \<and> writeFile_err demo_env (join (backup_path demo_env ''c'' ''d'') ''backup-info.json'') = None
   \<and> archive_err demo_env (backup_path demo_env ''c'' ''d'' @ ''.zip'') = None
   \<and> rmdir_err demo_env (backup_path demo_env ''c'' ''d'') = None
   \<and> listIndexes (collection demo_db ''orders'') = Inl (Error ''index listing failed'')
   \<and> fst (createBackup demo_env ''c'' ''d'' \<lparr>compress = True\<rparr> start_world) = Inr demo_zip_result
   \<and> br_collections demo_zip_result = 2
   \<and> collections (br_info demo_zip_result) ! 1 = Failure ''orders'' ''index listing failed''"
proof -
  note h1 = demo_getDatabase and h2 = demo_listCollections
  have h3: "mkdir_err demo_env (backup_path demo_env ''c'' ''d'') = None"
    by (simp add: demo_env_def)
  have h4: "writeFile_err demo_env (join (backup_path demo_env ''c'' ''d'') ''backup-info.json'')
              = None"
    by (simp add: demo_env_def)
  have h5: "compress \<lparr>compress = True\<rparr> \<longrightarrow>
              archive_err demo_env (backup_path demo_env ''c'' ''d'' @ ''.zip'') = None
              \<and> rmdir_err demo_env (backup_path demo_env ''c'' ''d'') = None"
    by (simp add: demo_env_def)
  have h6: "listIndexes (collection demo_db ''orders'') = Inl (Error ''index listing failed'')"
    and h7: "find_all (collection demo_db ''orders'') = Inr [''{_id:7}'']"
    by (simp_all add: demo_db_def demo_orders_def)
  from C3_partial_failure_does_not_abort [OF h1 h2 h3 h4 h5, of start_world]
  obtain r where r: "fst (createBackup demo_env ''c'' ''d'' \<lparr>compress = True\<rparr> start_world) = Inr r"
    and n: "br_collections r = length [''users'', ''orders'']"
    and f: "\<forall>i<length [''users'', ''orders'']. \<forall>e.
                 find_all (collection demo_db ([''users'', ''orders''] ! i)) = Inl e
                 \<or> (\<exists>docs. find_all (collection demo_db ([''users'', ''orders''] ! i)) = Inr docs)
                    \<and> listIndexes (collection demo_db ([''users'', ''orders''] ! i)) = Inl e
                 \<longrightarrow> collections (br_info r) ! i
                       = Failure ([''users'', ''orders''] ! i) (message e)"
    by blast
  from r demo_zip have eq: "r = demo_zip_result" by simp
  from f [rule_format, of 1 "Error ''index listing failed''"] h6 h7
  have "collections (br_info r) ! 1 = Failure ''orders'' ''index listing failed''"
    by simp
  with n eq h1 h2 h3 h4 h5 h6 demo_zip show ?thesis by simp
qed

subsection \<open>The manifest file of a compressed backup\<close>

text \<open>
  C6, as stated, has the persisted \<^verbatim>\<open>backup-info.json\<close> of a compressed backup carry
  \<^verbatim>\<open>compressed\<close> and \<^verbatim>\<open>archivePath\<close>. On the concrete database the manifest returned to the
  caller has \<^verbatim>\<open>compressed: true\<close>, and the manifest inside the archive has neither field.
\<close>

theorem C6_counterexample:
  "fst (createBackup demo_env ''c'' ''d'' \<lparr>compress = True\<rparr> start_world) = Inr demo_zip_result
   \<and> compressed (br_info demo_zip_result) = Some True
   \<and> map_option compressed
        (manifest_in_archive
           (snd (createBackup demo_env ''c'' ''d'' \<lparr>compress = True\<rparr> start_world))
           (br_path demo_zip_result)) = Some None
   \<and> map_option archivePath
        (manifest_in_archive
           (snd (createBackup demo_env ''c'' ''d'' \<lparr>compress = True\<rparr> start_world))
           (br_path demo_zip_result)) = Some None"
  by (simp add: backup_defs demo_defs demo_zip_result_def manifest_in_archive_def)

text \<open>
  C6, amended. When \<^verbatim>\<open>createBackup\<close> resolves with \<^verbatim>\<open>options.compress\<close> set, the
  \<^verbatim>\<open>backup-info.json\<close> inside the archive is the returned manifest without \<^verbatim>\<open>compressed\<close>
  and \<^verbatim>\<open>archivePath\<close>: the file is written before the archiver runs, and the two fields are
  set afterwards, on the returned object only, to \<^verbatim>\<open>true\<close> and to the path of the archive.
\<close>

theorem C6_persisted_manifest_lacks_archive_fields:
  assumes ok: "fst (createBackup env c d opts w) = Inr r"
    and zip: "compress opts"
  shows "manifest_in_archive (snd (createBackup env c d opts w)) (br_path r)
           = Some ((br_info r)\<lparr>compressed := None, archivePath := None\<rparr>)
       \<and> compressed (br_info r) = Some True
       \<and> archivePath (br_info r) = Some (br_path r)"
proof -
  note p = createBackup_persisted [OF ok]
  from p(1) zip
  have "manifest_in_archive (snd (createBackup env c d opts w)) (br_path r)
          = Some ((br_info r)\<lparr>compressed := None, archivePath := None\<rparr>)"
    by (simp add: persisted_manifest_def)
  moreover from p(2) zip have "compressed (br_info r) = Some True" by simp
  moreover from p(3) zip have "archivePath (br_info r) = Some (br_path r)" by simp
  ultimately show ?thesis by blast
qed

text \<open>The amended statement at the concrete database.\<close>

theorem C6_witness:
  "fst (createBackup demo_env ''c'' ''d'' \<lparr>compress = True\<rparr> start_world) = Inr demo_zip_result
   \<and> compress \<lparr>compress = True\<rparr>
   \<and> manifest_in_archive (snd (createBackup demo_env ''c'' ''d'' \<lparr>compress = True\<rparr> start_world))
        ''backups/c-d-2024-01-02T03-04-05-678Z.zip''
      = Some \<lparr>bi_cluster = ''c'', bi_database = ''d'', bi_timestamp = 1704164645678,
              collections = [Success ''users'' 2 120 2,
                             Failure ''orders'' ''index listing failed''],
              totalDocuments = 2, totalSize = 120, compressed = None, archivePath = None\<rparr>
   \<and> compressed (br_info demo_zip_result) = Some True
   \<and> archivePath (br_info demo_zip_result) = Some ''backups/c-d-2024-01-02T03-04-05-678Z.zip''"
proof -
  note h1 = demo_zip
  have h2: "compress \<lparr>compress = True\<rparr>" by simp
  from C6_persisted_manifest_lacks_archive_fields [OF h1 h2] h1 h2
  show ?thesis by (simp add: demo_zip_result_def)
qed

subsection \<open>The reported size\<close>

text \<open>
  C7. The \<^verbatim>\<open>size\<close> of the result of \<^verbatim>\<open>createBackup\<close> is the sum of the sizes of the
  serialised export objects of the collections that were snapshotted successfully, and a
  call with any other options from the same state, if it resolves, reports the same size:
  the size is the logical one, whether or not the backup is compressed.
\<close>

theorem C7_size_is_logical_size:
  assumes "fst (createBackup env c d opts w) = Inr r"
    and "getDatabase env c d = Inr db"
    and "listCollections db = Inr names"
  shows "br_size r = logical_size env db (backup_path env c d) c d names
       \<and> (\<forall>opts' r'. fst (createBackup env c d opts' w) = Inr r' \<longrightarrow> br_size r' = br_size r)"
proof -
  note cb = createBackup_Inr [OF createBackup_fst [OF assms(1)] assms(2) assms(3)]
  have a: "br_size r = logical_size env db (backup_path env c d) c d names"
    using cb(2) cb(3) by (simp add: logical_size_def)
  have "br_size r' = br_size r" if "fst (createBackup env c d opts' w) = Inr r'" for opts' r'
  proof -
    note cb' = createBackup_Inr [OF createBackup_fst [OF that] assms(2) assms(3)]
    show ?thesis using cb'(2) cb'(3) a by (simp add: logical_size_def)
  qed
  with a show ?thesis by blast
qed

text \<open>
  The theorem at the concrete database: the export of \<^verbatim>\<open>users\<close> serialises to 120
  characters, \<^verbatim>\<open>orders\<close> fails, and both the compressed and the plain backup report 120.
\<close>

theorem C7_witness:
  "fst (createBackup demo_env ''c'' ''d'' \<lparr>compress = True\<rparr> start_world) = Inr demo_zip_result
   \<and> fst (createBackup demo_env ''c'' ''d'' \<lparr>compress = False\<rparr> start_world) = Inr demo_plain_result
   \<and> getDatabase demo_env ''c'' ''d'' = Inr demo_db
   \<and> listCollections demo_db = Inr [''users'', ''orders'']
   \<and> logical_size demo_env demo_db (backup_path demo_env ''c'' ''d'') ''c'' ''d''
        [''users'', ''orders''] = 120
   \<and> br_size demo_zip_result = 120
   \<and> br_size demo_plain_result = br_size demo_zip_result"
proof -
  note h1 = demo_zip and h2 = demo_getDatabase and h3 = demo_listCollections
  have h4: "logical_size demo_env demo_db (backup_path demo_env ''c'' ''d'') ''c'' ''d''
        [''users'', ''orders''] = 120"
    by (simp add: logical_size_def payload_size_def snapshot_outcome_cases demo_db_def
        demo_users_def demo_orders_def demo_env_def)
  from C7_size_is_logical_size [OF h1 h2 h3] demo_plain h4
  have "br_size demo_zip_result = 120"
    and "br_size demo_plain_result = br_size demo_zip_result"
    by simp_all
  with h1 h2 h3 h4 demo_plain show ?thesis by simp
qed

section \<open>restoreBackup: skipped records, index counts and the scratch directory\<close>

subsection \<open>What a step of the restore may change\<close>

lemma frame_refl: "frame S w w"
  by (simp add: frame_def new_ops_def)

lemma frame_trans:
  assumes "frame S w w1" and "frame S w1 w2"
  shows "frame S w w2"
proof -
  from assms have a: "db_ops w1 = db_ops w @ new_ops w w1"
    and b: "db_ops w2 = db_ops w1 @ new_ops w1 w2"
    by (simp_all add: frame_def)
  have c: "new_ops w w2 = new_ops w w1 @ new_ops w1 w2"
    unfolding new_ops_def [of w w2] by (subst b, subst a) simp
  show ?thesis
    using assms unfolding frame_def c by (auto simp: a)
qed

lemma frame_mono: "frame S w w' \<Longrightarrow> S \<subseteq> T \<Longrightarrow> frame T w w'"
  by (auto simp: frame_def)

lemma frame_log: "frame S w w' \<Longrightarrow> frame S w (w'\<lparr>log := l\<rparr>)"
  by (simp add: frame_def new_ops_def)

lemma frame_op: "op_collection op \<in> S \<Longrightarrow> frame S w (w\<lparr>db_ops := db_ops w @ [op]\<rparr>)"
  by (simp add: frame_def new_ops_def)

lemma restore_indexes_frame: "frame {n} w (restore_indexes coll n idxs w)"
proof (induction idxs arbitrary: w)
  case Nil
  show ?case by (simp add: frame_refl)
next
  case (Cons idx rest)
  show ?case
  proof (cases "idx_name idx = ''_id_''")
    case True
    then show ?thesis using Cons.IH [of w] by simp
  next
    case False
    define w1 where "w1 = w\<lparr>db_ops := db_ops w @ [CreateIndexOp n idx]\<rparr>"
    define w2 where "w2 = (case createIndex_err coll idx of
        Some e \<Rightarrow> w1\<lparr>log := log w1 @ [LogWarn (''Failed to restore index '' @ idx_name idx @ '':'')
                           (message e)]\<rparr>
      | None \<Rightarrow> w1)"
    have step: "restore_indexes coll n (idx # rest) w = restore_indexes coll n rest w2"
      using False by (simp add: w1_def w2_def Let_def split: option.splits)
    have "frame {n} w w1"
      unfolding w1_def by (rule frame_op) simp
    then have "frame {n} w w2"
      unfolding w2_def by (auto split: option.splits intro: frame_log)
    then show ?thesis
      unfolding step using Cons.IH [of w2] by (rule frame_trans)
  qed
qed

lemma drop_existing_frame: "frame {n} w (drop_existing opts n w)"
  by (simp add: drop_existing_def frame_refl frame_op)

lemma insert_documents_frame:
  "frame {n} w (snd (insert_documents coll n docs w))"
  by (simp add: insert_documents_def frame_refl frame_op)

lemma readFile_files:
  "files w = files w' \<Longrightarrow> readFile env p w = readFile env p w'"
  by (simp add: readFile_def split: option.splits)

lemma restore_collection_try_frame:
  "frame {n} w (snd (restore_collection_try env db dir opts n w))"
proof -
  define w1 where "w1 = drop_existing opts n w"
  have f1: "frame {n} w w1"
    unfolding w1_def by (rule drop_existing_frame)
  have f2: "frame {n} w w2" if "insert_documents coll n docs w1 = (eo, w2)" for coll docs eo w2
    using f1 insert_documents_frame [of n w1 coll docs] that by (auto intro: frame_trans)
  have f3: "frame {n} w (restore_indexes coll' n idxs w2)"
    if "insert_documents coll n docs w1 = (eo, w2)" for coll coll' docs idxs eo w2
    using f2 [OF that] restore_indexes_frame by (rule frame_trans)
  show ?thesis
    using f1
    by (auto simp: restore_collection_try_def Let_def w1_def [symmetric] frame_refl
        split: sum.splits option.splits prod.splits intro!: frame_log
        intro: f2 f3)
qed

subsection \<open>One iteration\<close>

text \<open>A record whose \<^verbatim>\<open>error\<close> is truthy: the iteration changes nothing and pushes nothing.\<close>

lemma restore_collection_skip:
  "truthy (record_error collectionInfo) \<Longrightarrow>
     restore_collection env db dir opts collectionInfo w = (None, w)"
  by (simp add: restore_collection_def)

lemma restore_collection_frame:
  "frame {record_name collectionInfo} w
     (snd (restore_collection env db dir opts collectionInfo w))"
  using restore_collection_try_frame [of "record_name collectionInfo" w env db dir opts]
  by (auto simp: restore_collection_def frame_refl split: prod.splits sum.splits
      intro: frame_log)

lemma restore_collection_try_Inr:
  assumes "fst (restore_collection_try env db dir opts n w) = Inr rc"
  shows "rc_name rc = n
       \<and> (\<exists>cd. readFile env (join dir (n @ ''.json'')) w = Inr (CollectionFile cd)
               \<and> rc_documents rc = length (documents cd)
               \<and> rc_indexes rc = int (length (indexes cd)) - 1)"
proof -
  from assms obtain content where rd: "readFile env (join dir (n @ ''.json'')) w = Inr content"
    by (auto simp: restore_collection_try_def split: sum.splits)
  with assms obtain cd where pe: "parse_export content = Inr (Some cd)"
    by (auto simp: restore_collection_try_def Let_def split: sum.splits option.splits)
  then have content: "content = CollectionFile cd"
    by (cases content) simp_all
  from assms rd pe show ?thesis
    by (auto simp: restore_collection_try_def Let_def content
        split: sum.splits option.splits prod.splits)
qed

lemma restore_collection_Some:
  assumes "fst (restore_collection env db dir opts collectionInfo w) = Some rc"
  shows "\<not> truthy (record_error collectionInfo) \<and> rc_name rc = record_name collectionInfo
       \<and> (\<exists>cd. readFile env (join dir (rc_name rc @ ''.json'')) w = Inr (CollectionFile cd)
               \<and> rc_documents rc = length (documents cd)
               \<and> rc_indexes rc = int (length (indexes cd)) - 1)"
proof -
  from assms have nt: "\<not> truthy (record_error collectionInfo)"
    by (auto simp: restore_collection_def split: if_splits)
  with assms
  have "fst (restore_collection_try env db dir opts (record_name collectionInfo) w) = Inr rc"
    by (auto simp: restore_collection_def split: prod.splits sum.splits)
  from restore_collection_try_Inr [OF this] nt show ?thesis by auto
qed

subsection \<open>The loop\<close>

text \<open>The loop over a manifest is the loop over its records that are not skipped.\<close>

lemma restore_loop_skip:
  "restore_loop env db dir opts recs restored w
     = restore_loop env db dir opts (kept recs) restored w"
proof (induction recs arbitrary: restored w)
  case Nil
  show ?case by (simp add: kept_def)
next
  case (Cons r rest)
  show ?case
  proof (cases "truthy (record_error r)")
    case True
    then show ?thesis
      using Cons.IH [of restored w] by (simp add: kept_def restore_collection_skip)
  next
    case False
    then show ?thesis
      using Cons.IH by (simp add: kept_def split: prod.splits option.splits)
  qed
qed

lemma restore_loop_frame:
  "frame (record_name ` set (kept recs)) w (snd (restore_loop env db dir opts recs restored w))"
proof (induction recs arbitrary: restored w)
  case Nil
  show ?case by (simp add: frame_refl)
next
  case (Cons r rest)
  obtain res w1 where rc: "restore_collection env db dir opts r w = (res, w1)"
    by (cases "restore_collection env db dir opts r w")
  show ?case
  proof (cases "truthy (record_error r)")
    case True
    then have "restore_collection env db dir opts r w = (None, w)"
      by (rule restore_collection_skip)
    then show ?thesis
      using Cons.IH [of w restored] True by (simp add: kept_def)
  next
    case False
    have sub1: "{record_name r} \<subseteq> record_name ` set (kept (r # rest))"
      and sub2: "record_name ` set (kept rest) \<subseteq> record_name ` set (kept (r # rest))"
      using False by (auto simp: kept_def)
    have "frame {record_name r} w w1"
      using restore_collection_frame [of r w env db dir opts] rc by simp
    then have a: "frame (record_name ` set (kept (r # rest))) w w1"
      using sub1 by (rule frame_mono)
    have b: "frame (record_name ` set (kept (r # rest))) w1
               (snd (restore_loop env db dir opts rest acc w1))" for acc
      using Cons.IH [of w1 acc] sub2 by (rule frame_mono)
    show ?thesis
      using frame_trans [OF a b] by (cases res) (simp_all add: rc)
  qed
qed

text \<open>
  Every element the loop pushes belongs to a record that is not skipped, and its counts are
  those of the export file of that name.
\<close>

lemma restore_loop_restored:
  "\<exists>new. fst (restore_loop env db dir opts recs restored w) = restored @ new
     \<and> (\<forall>rc\<in>set new. rc_name rc \<in> record_name ` set (kept recs)
           \<and> (\<exists>cd. readFile env (join dir (rc_name rc @ ''.json'')) w = Inr (CollectionFile cd)
                   \<and> rc_documents rc = length (documents cd)
                   \<and> rc_indexes rc = int (length (indexes cd)) - 1))"
proof (induction recs arbitrary: restored w)
  case Nil
  show ?case by simp
next
  case (Cons r rest)
  obtain res w1 where rc: "restore_collection env db dir opts r w = (res, w1)"
    by (cases "restore_collection env db dir opts r w")
  have "frame {record_name r} w w1"
    using restore_collection_frame [of r w env db dir opts] rc by simp
  then have "files w1 = files w" by (simp add: frame_def)
  then have rf: "readFile env p w1 = readFile env p w" for p
    by (rule readFile_files)
  have sub: "record_name ` set (kept rest) \<subseteq> record_name ` set (kept (r # rest))"
    by (auto simp: kept_def)
  show ?case
  proof (cases res)
    case None
    from Cons.IH [of restored w1] obtain new where
      "fst (restore_loop env db dir opts rest restored w1) = restored @ new"
      "\<forall>rc\<in>set new. rc_name rc \<in> record_name ` set (kept rest)
           \<and> (\<exists>cd. readFile env (join dir (rc_name rc @ ''.json'')) w1 = Inr (CollectionFile cd)
                   \<and> rc_documents rc = length (documents cd)
                   \<and> rc_indexes rc = int (length (indexes cd)) - 1)"
      by blast
    then show ?thesis
      using sub unfolding rf by (intro exI [of _ new]) (auto simp: rc None)
  next
    case (Some x)
    from restore_collection_Some [of env db dir opts r w x] rc Some
    have x: "\<not> truthy (record_error r)" "rc_name x = record_name r"
      "\<exists>cd. readFile env (join dir (rc_name x @ ''.json'')) w = Inr (CollectionFile cd)
               \<and> rc_documents x = length (documents cd)
               \<and> rc_indexes x = int (length (indexes cd)) - 1"
      by auto
    then have xin: "rc_name x \<in> record_name ` set (kept (r # rest))"
      by (simp add: kept_def)
    from Cons.IH [of "restored @ [x]" w1] obtain new where
      "fst (restore_loop env db dir opts rest (restored @ [x]) w1) = (restored @ [x]) @ new"
      "\<forall>rc\<in>set new. rc_name rc \<in> record_name ` set (kept rest)
           \<and> (\<exists>cd. readFile env (join dir (rc_name rc @ ''.json'')) w1 = Inr (CollectionFile cd)
                   \<and> rc_documents rc = length (documents cd)
                   \<and> rc_indexes rc = int (length (indexes cd)) - 1)"
      by blast
    then show ?thesis
      using sub x(3) xin unfolding rf
      by (intro exI [of _ "x # new"]) (auto simp: rc Some)
  qed
qed

subsection \<open>A call that resolves\<close>

lemma expand_source_Inr:
  assumes "expand_source env bp w = (Inr dir, w1)"
  shows "dir = restore_dir env bp \<and> db_ops w1 = db_ops w"
  using assms
  by (auto simp: expand_source_def restore_dir_def extract_zip_def
      split: if_splits prod.splits sum.splits option.splits file_content.splits)

lemma restoreBackup_Inr:
  assumes ok: "fst (restoreBackup env bp tc td opts w) = Inr r"
  obtains db w1 w2 w3 w4 where
    "expand_source env bp w = (Inr (restore_dir env bp), w1)"
    and "getDatabase env tc td = Inr db"
    and "w2 = w1\<lparr>log := log w1 @ [LogInfo (''Starting restore to '' @ tc @ ''/'' @ td)]\<rparr>"
    and "restore_loop env db (restore_dir env bp) opts (collections (sourceBackup r)) [] w2
           = (restoredCollections r, w3)"
    and "cleanup_temp env bp (restore_dir env bp) w3 = (Inr (), w4)"
    and "snd (restoreBackup env bp tc td opts w)
           = w4\<lparr>log := log w4 @ [LogInfo ''Restore completed'']\<rparr>"
proof -
  from ok obtain w' where t: "restoreBackup_try env bp tc td opts w = (Inr r, w')"
    and s: "snd (restoreBackup env bp tc td opts w) = w'"
    by (auto simp: restoreBackup_def split: prod.splits sum.splits)
  from t obtain dir w1 where ex: "expand_source env bp w = (Inr dir, w1)"
    by (auto simp: restoreBackup_try_def split: prod.splits sum.splits)
  from expand_source_Inr [OF ex] have dir: "dir = restore_dir env bp" by simp
  from t ex obtain content where rd: "readFile env (join dir ''backup-info.json'') w1 = Inr content"
    by (auto simp: restoreBackup_try_def split: prod.splits sum.splits)
  from t ex rd obtain parsed where pm: "parse_manifest content = Inr parsed"
    by (auto simp: restoreBackup_try_def split: prod.splits sum.splits)
  from t ex rd pm obtain db where db: "getDatabase env tc td = Inr db"
    by (auto simp: restoreBackup_try_def split: prod.splits sum.splits)
  from t ex rd pm db obtain m where m: "parsed = Some m"
    by (auto simp: restoreBackup_try_def Let_def split: prod.splits sum.splits option.splits)
  define w2 where "w2 = w1\<lparr>log := log w1 @ [LogInfo (''Starting restore to '' @ tc @ ''/'' @ td)]\<rparr>"
  obtain restored w3 where lp: "restore_loop env db dir opts (collections m) [] w2 = (restored, w3)"
    by (cases "restore_loop env db dir opts (collections m) [] w2")
  from t ex rd pm db m lp obtain w4 where
    cl: "cleanup_temp env bp dir w3 = (Inr (), w4)"
    and r: "r = \<lparr>restoredCollections = restored, sourceBackup = m, target_cluster = tc,
                 target_database = td\<rparr>"
    and w': "w' = w4\<lparr>log := log w4 @ [LogInfo ''Restore completed'']\<rparr>"
    by (auto simp: restoreBackup_try_def Let_def w2_def split: prod.splits sum.splits)
  show ?thesis
    using that [of w1 db w2 w3 w4] ex db w2_def lp cl s w' r dir by simp
qed

subsection \<open>The calls on the concrete backup root\<close>

lemmas restore_defs = restoreBackup_def restoreBackup_try_def expand_source_def extract_zip_def
  tempDir_def cleanup_temp_def rmdir_def under_def readFile_def join_def endsWith_def Let_def
  restore_collection_def restore_collection_try_def drop_existing_def insert_documents_def
  truthy_def

lemmas restore_inputs = demo_defs restore_world_def manifest_b1_def manifest_b2_def
  users_export_def logs_export_def orders_export_def archive_b1_def archive_bad_def

lemma demo_restore_dir:
  "fst (restoreBackup demo_env ''backups/b1'' ''c2'' ''d2'' \<lparr>dropExisting = True\<rparr> restore_world)
     = Inr restored_b1"
  by (simp add: restore_defs restore_inputs restored_b1_def)

lemma demo_restore_dir_ops:
  "db_ops (snd (restoreBackup demo_env ''backups/b1'' ''c2'' ''d2'' \<lparr>dropExisting = True\<rparr>
                  restore_world))
     = [DropOp ''users'', InsertManyOp ''users'' [''{_id:1}'', ''{_id:2}''],
        CreateIndexOp ''users'' idx_email, DropOp ''logs'']"
  by (simp add: restore_defs restore_inputs)

lemma demo_restore_zip:
  "fst (restoreBackup demo_env ''backups/b1.zip'' ''c2'' ''d2'' \<lparr>dropExisting = False\<rparr>
          restore_world) = Inr restored_b1"
  by (simp add: restore_defs restore_inputs restored_b1_def)

subsection \<open>The scratch directory\<close>

text \<open>
  C4, as stated, has the scratch directory deleted on every exit path. Restoring the archive
  \<^verbatim>\<open>bad.zip\<close>, whose manifest is not JSON, creates \<^verbatim>\<open>backups/temp-restore\<close>, which did
  not exist before, rejects with the error of \<^verbatim>\<open>JSON.parse\<close>, and leaves the directory
  and the expanded file in place.
\<close>

theorem C4_counterexample:
  "endsWith ''backups/bad.zip'' ''.zip''
   \<and> tempDir demo_env = ''backups/temp-restore''
   \<and> ''backups/temp-restore'' \<notin> dirs restore_world
   \<and> fst (restoreBackup demo_env ''backups/bad.zip'' ''c2'' ''d2'' \<lparr>dropExisting = False\<rparr>
            restore_world) = Inl (Error ''Unexpected token in JSON'')
   \<and> ''backups/temp-restore''
        \<in> dirs (snd (restoreBackup demo_env ''backups/bad.zip'' ''c2'' ''d2''
                        \<lparr>dropExisting = False\<rparr> restore_world))
   \<and> files (snd (restoreBackup demo_env ''backups/bad.zip'' ''c2'' ''d2''
                     \<lparr>dropExisting = False\<rparr> restore_world))
        ''backups/temp-restore/backup-info.json'' = Some (Raw ''{'')"
  by (simp add: restore_defs restore_inputs)

text \<open>
  C4, amended. When \<^verbatim>\<open>restoreBackup\<close> of an archive resolves, the scratch directory and
  everything below it have been deleted before it returns, however many collections failed
  to restore. The removal is the last step of the \<^verbatim>\<open>try\<close> block (lines 206-209): a call
  that rejects before it does not reach it.
\<close>

theorem C4_scratch_removed_when_resolved:
  assumes zip: "endsWith backupPath ''.zip''"
    and ok: "fst (restoreBackup env backupPath tc td opts w) = Inr r"
  shows "tempDir env \<notin> dirs (snd (restoreBackup env backupPath tc td opts w))
       \<and> (\<forall>q. under (tempDir env) q \<longrightarrow>
              files (snd (restoreBackup env backupPath tc td opts w)) q = None)"
proof -
  from ok obtain w3 w4 where
    cl: "cleanup_temp env backupPath (restore_dir env backupPath) w3 = (Inr (), w4)"
    and s: "snd (restoreBackup env backupPath tc td opts w)
              = w4\<lparr>log := log w4 @ [LogInfo ''Restore completed'']\<rparr>"
    by (rule restoreBackup_Inr)
  from cl zip have "rmdir env (tempDir env) w3 = (Inr (), w4)"
    by (simp add: cleanup_temp_def restore_dir_def)
  then have "tempDir env \<notin> dirs w4" and "\<forall>q. under (tempDir env) q \<longrightarrow> files w4 q = None"
    by (auto simp: rmdir_def split: option.splits)
  then show ?thesis by (simp add: s)
qed

text \<open>
  The amended statement at the archive \<^verbatim>\<open>b1.zip\<close>: the call resolves, and afterwards neither
  the scratch directory nor the expanded export of \<^verbatim>\<open>users\<close> exists.
\<close>

theorem C4_witness:
  "endsWith ''backups/b1.zip'' ''.zip''
   \<and> fst (restoreBackup demo_env ''backups/b1.zip'' ''c2'' ''d2'' \<lparr>dropExisting = False\<rparr>
            restore_world) = Inr restored_b1
   \<and> under (tempDir demo_env) ''backups/temp-restore/users.json''
   \<and> tempDir demo_env
        \<notin> dirs (snd (restoreBackup demo_env ''backups/b1.zip'' ''c2'' ''d2''
                        \<lparr>dropExisting = False\<rparr> restore_world))
   \<and> files (snd (restoreBackup demo_env ''backups/b1.zip'' ''c2'' ''d2''
                     \<lparr>dropExisting = False\<rparr> restore_world))
        ''backups/temp-restore/users.json'' = None"
proof -
  have h1: "endsWith ''backups/b1.zip'' ''.zip''" by (simp add: endsWith_def)
  note h2 = demo_restore_zip
  have h3: "under (tempDir demo_env) ''backups/temp-restore/users.json''"
    by (simp add: under_def tempDir_def join_def demo_env_def)
  note c4 = C4_scratch_removed_when_resolved [OF h1 h2]
  from c4 have a: "tempDir demo_env
        \<notin> dirs (snd (restoreBackup demo_env ''backups/b1.zip'' ''c2'' ''d2''
                        \<lparr>dropExisting = False\<rparr> restore_world))"
    by blast
  from c4 h3 have b: "files (snd (restoreBackup demo_env ''backups/b1.zip'' ''c2'' ''d2''
                     \<lparr>dropExisting = False\<rparr> restore_world))
        ''backups/temp-restore/users.json'' = None"
    by blast
  from h1 h2 h3 a b show ?thesis by blast
qed

subsection \<open>Records that carry an error\<close>

text \<open>
  C8, as stated, has every record with an \<^verbatim>\<open>error\<close> skipped. The manifest of \<^verbatim>\<open>b2\<close> holds
  the record \<^verbatim>\<open>{name: 'orders', error: ''}\<close>, as line 81 writes it for an error whose
  message is empty, next to an export file of that name. The empty string is falsy, line 156
  does not skip the record, and the restore drops the collection, inserts the document and
  reports the collection as restored.
\<close>

theorem C8_counterexample:
  "files restore_world ''backups/b2/backup-info.json'' = Some (ManifestFile manifest_b2)
   \<and> collections manifest_b2 = [Failure ''orders'' []]
   \<and> fst (restoreBackup demo_env ''backups/b2'' ''c2'' ''d2'' \<lparr>dropExisting = True\<rparr>
            restore_world) = Inr restored_b2
   \<and> restoredCollections restored_b2
       = [\<lparr>rc_name = ''orders'', rc_documents = 1, rc_indexes = 0\<rparr>]
   \<and> db_ops (snd (restoreBackup demo_env ''backups/b2'' ''c2'' ''d2''
                      \<lparr>dropExisting = True\<rparr> restore_world))
       = [DropOp ''orders'', InsertManyOp ''orders'' [''{_id:7}'']]"
  by (simp add: restore_defs restore_inputs restored_b2_def)

text \<open>
  C8, amended. A record that carries a non-empty \<^verbatim>\<open>error\<close> is skipped: its iteration
  attempts no operation and pushes nothing, in whatever state it runs. So when
  \<^verbatim>\<open>restoreBackup\<close> resolves for a manifest whose records have distinct names, no drop,
  insert or index creation is attempted on the collection of such a record, and its name is
  not among \<^verbatim>\<open>restoredCollections\<close>.
\<close>

theorem C8_nonempty_error_records_skipped:
  assumes ok: "fst (restoreBackup env backupPath tc td opts w) = Inr r"
    and mem: "Failure n msg \<in> set (collections (sourceBackup r))"
    and msg: "msg \<noteq> []"
    and dist: "distinct (map record_name (collections (sourceBackup r)))"
  shows "(\<forall>db dir w0. restore_collection env db dir opts (Failure n msg) w0 = (None, w0))
       \<and> n \<notin> rc_name ` set (restoredCollections r)
       \<and> db_ops (snd (restoreBackup env backupPath tc td opts w))
           = db_ops w @ new_ops w (snd (restoreBackup env backupPath tc td opts w))
       \<and> n \<notin> op_collection ` set (new_ops w (snd (restoreBackup env backupPath tc td opts w)))"
proof -
  define recs where "recs = collections (sourceBackup r)"
  have tr: "truthy (record_error (Failure n msg))"
    using msg by (simp add: truthy_def)
  have notkept: "n \<notin> record_name ` set (kept recs)"
  proof
    assume "n \<in> record_name ` set (kept recs)"
    then obtain x where x: "x \<in> set recs" "\<not> truthy (record_error x)" "record_name x = n"
      by (auto simp: kept_def)
    from dist have inj: "inj_on record_name (set recs)"
      unfolding recs_def by (simp add: distinct_map)
    from mem have fin: "Failure n msg \<in> set recs"
      by (simp add: recs_def)
    have same: "record_name x = record_name (Failure n msg)"
      using x(3) by simp
    have "x = Failure n msg"
      by (rule inj_onD [OF inj same x(1) fin])
    with x(2) tr show False by simp
  qed
  from ok obtain db w1 w2 w3 w4 where
    ex: "expand_source env backupPath w = (Inr (restore_dir env backupPath), w1)"
    and w2: "w2 = w1\<lparr>log := log w1 @ [LogInfo (''Starting restore to '' @ tc @ ''/'' @ td)]\<rparr>"
    and lp: "restore_loop env db (restore_dir env backupPath) opts recs [] w2
               = (restoredCollections r, w3)"
    and cl: "cleanup_temp env backupPath (restore_dir env backupPath) w3 = (Inr (), w4)"
    and s: "snd (restoreBackup env backupPath tc td opts w)
              = w4\<lparr>log := log w4 @ [LogInfo ''Restore completed'']\<rparr>"
    unfolding recs_def by (rule restoreBackup_Inr)
  define w' where "w' = snd (restoreBackup env backupPath tc td opts w)"
  have a: "db_ops w2 = db_ops w"
    using expand_source_Inr [OF ex] by (simp add: w2)
  have b: "db_ops w' = db_ops w3"
    using cl unfolding w'_def s
    by (auto simp: cleanup_temp_def rmdir_def split: if_splits option.splits)
  from restore_loop_frame [of recs w2 env db "restore_dir env backupPath" opts "[]"] lp
  have fr: "frame (record_name ` set (kept recs)) w2 w3" by simp
  then have c: "db_ops w3 = db_ops w2 @ new_ops w2 w3"
    and d: "op_collection ` set (new_ops w2 w3) \<subseteq> record_name ` set (kept recs)"
    by (simp_all add: frame_def)
  have e: "new_ops w w' = new_ops w2 w3"
    by (simp add: new_ops_def a b)
  from restore_loop_restored [of env db "restore_dir env backupPath" opts recs "[]" w2] lp
  have f: "rc_name ` set (restoredCollections r) \<subseteq> record_name ` set (kept recs)"
    by auto
  have "\<forall>db dir w0. restore_collection env db dir opts (Failure n msg) w0 = (None, w0)"
    using tr by (simp add: restore_collection_skip)
  moreover have "n \<notin> rc_name ` set (restoredCollections r)"
    using f notkept by blast
  moreover have "db_ops w' = db_ops w @ new_ops w w'"
    using a b c e by simp
  moreover have "n \<notin> op_collection ` set (new_ops w w')"
    using d e notkept by auto
  ultimately show ?thesis unfolding w'_def by blast
qed

text \<open>
  The amended statement at the backup \<^verbatim>\<open>b1\<close>, whose manifest lists \<^verbatim>\<open>orders\<close> with the
  error of its index listing and whose directory does hold an export of \<^verbatim>\<open>orders\<close>:
  the restore attempts operations on \<^verbatim>\<open>users\<close> and \<^verbatim>\<open>logs\<close> only.
\<close>

theorem C8_witness:
  "fst (restoreBackup demo_env ''backups/b1'' ''c2'' ''d2'' \<lparr>dropExisting = True\<rparr> restore_world)
     = Inr restored_b1
   \<and> Failure ''orders'' ''index listing failed'' \<in> set (collections (sourceBackup restored_b1))
   \<and> ''index listing failed'' \<noteq> []
   \<and> distinct (map record_name (collections (sourceBackup restored_b1)))
   \<and> files restore_world ''backups/b1/orders.json'' = Some (CollectionFile orders_export)
   \<and> restore_collection demo_env demo_db ''backups/b1'' \<lparr>dropExisting = True\<rparr>
        (Failure ''orders'' ''index listing failed'') restore_world = (None, restore_world)
   \<and> ''orders'' \<notin> rc_name ` set (restoredCollections restored_b1)
   \<and> ''orders''
        \<notin> op_collection ` set (new_ops restore_world
             (snd (restoreBackup demo_env ''backups/b1'' ''c2'' ''d2'' \<lparr>dropExisting = True\<rparr>
                     restore_world)))"
proof -
  note h1 = demo_restore_dir
  have h2: "Failure ''orders'' ''index listing failed''
              \<in> set (collections (sourceBackup restored_b1))"
    by (simp add: restored_b1_def manifest_b1_def)
  have h3: "''index listing failed'' \<noteq> []" by simp
  have h4: "distinct (map record_name (collections (sourceBackup restored_b1)))"
    by (simp add: restored_b1_def manifest_b1_def)
  have h5: "files restore_world ''backups/b1/orders.json'' = Some (CollectionFile orders_export)"
    by (simp add: restore_world_def)
  note c8 = C8_nonempty_error_records_skipped [OF h1 h2 h3 h4]
  from c8 have a: "restore_collection demo_env demo_db ''backups/b1'' \<lparr>dropExisting = True\<rparr>
        (Failure ''orders'' ''index listing failed'') restore_world = (None, restore_world)"
    by blast
  from c8 have b: "''orders'' \<notin> rc_name ` set (restoredCollections restored_b1)"
    by blast
  from c8 have c: "''orders''
        \<notin> op_collection ` set (new_ops restore_world
             (snd (restoreBackup demo_env ''backups/b1'' ''c2'' ''d2'' \<lparr>dropExisting = True\<rparr>
                     restore_world)))"
    by blast
  from h1 h2 h3 h4 h5 a b c show ?thesis by blast
qed

subsection \<open>The reported index count\<close>

text \<open>
  C9. For every element of \<^verbatim>\<open>restoredCollections\<close>, the export file of that name in the
  directory restored from parses to an export object, and the reported \<^verbatim>\<open>indexes\<close> is the
  length of its index list minus one, whatever the list holds; for an empty index list the
  reported count is \<open>-1\<close>.
\<close>

theorem C9_index_count_is_length_minus_one:
  assumes ok: "fst (restoreBackup env backupPath tc td opts w) = Inr r"
    and rc: "rc \<in> set (restoredCollections r)"
  shows "\<exists>cd. readFile env (join (restore_dir env backupPath) (rc_name rc @ ''.json''))
                 (snd (expand_source env backupPath w)) = Inr (CollectionFile cd)
              \<and> rc_indexes rc = int (length (indexes cd)) - 1
              \<and> (indexes cd = [] \<longrightarrow> rc_indexes rc = - 1)"
proof -
  from ok obtain db w1 w2 w3 where
    ex: "expand_source env backupPath w = (Inr (restore_dir env backupPath), w1)"
    and w2: "w2 = w1\<lparr>log := log w1 @ [LogInfo (''Starting restore to '' @ tc @ ''/'' @ td)]\<rparr>"
    and lp: "restore_loop env db (restore_dir env backupPath) opts
               (collections (sourceBackup r)) [] w2 = (restoredCollections r, w3)"
    by (rule restoreBackup_Inr)
  have rf: "readFile env p w2 = readFile env p w1" for p
    by (rule readFile_files) (simp add: w2)
  from restore_loop_restored [of env db "restore_dir env backupPath" opts
      "collections (sourceBackup r)" "[]" w2] lp rc
  obtain cd where "readFile env (join (restore_dir env backupPath) (rc_name rc @ ''.json'')) w2
                     = Inr (CollectionFile cd)"
    and "rc_indexes rc = int (length (indexes cd)) - 1"
    by auto
  then show ?thesis
    unfolding rf using ex by auto
qed

text \<open>
  The theorem at the backup \<^verbatim>\<open>b1\<close>: the export of \<^verbatim>\<open>logs\<close> has no index entry, not even
  \<^verbatim>\<open>_id_\<close>, and the restore reports \<open>-1\<close> indexes for it.
\<close>

theorem C9_witness:
  "fst (restoreBackup demo_env ''backups/b1'' ''c2'' ''d2'' \<lparr>dropExisting = True\<rparr> restore_world)
     = Inr restored_b1
   \<and> \<lparr>rc_name = ''logs'', rc_documents = 0, rc_indexes = - 1\<rparr>
       \<in> set (restoredCollections restored_b1)
   \<and> readFile demo_env ''backups/b1/logs.json'' restore_world = Inr (CollectionFile logs_export)
   \<and> indexes logs_export = []
   \<and> rc_indexes \<lparr>rc_name = ''logs'', rc_documents = 0, rc_indexes = - 1\<rparr>
       = int (length (indexes logs_export)) - 1"
proof -
  note h1 = demo_restore_dir
  have h2: "\<lparr>rc_name = ''logs'', rc_documents = 0, rc_indexes = - 1\<rparr>
              \<in> set (restoredCollections restored_b1)"
    by (simp add: restored_b1_def)
  have h3: "readFile demo_env ''backups/b1/logs.json'' restore_world
              = Inr (CollectionFile logs_export)"
    by (simp add: readFile_def demo_env_def restore_world_def)
  have h4: "indexes logs_export = []" by (simp add: logs_export_def)
  have ex: "snd (expand_source demo_env ''backups/b1'' restore_world) = restore_world"
    and dir: "join (restore_dir demo_env ''backups/b1'') ''logs.json'' = ''backups/b1/logs.json''"
    by (simp_all add: expand_source_def restore_dir_def endsWith_def join_def)
  from C9_index_count_is_length_minus_one [OF h1 h2]
  obtain cd where "readFile demo_env ''backups/b1/logs.json'' restore_world
                     = Inr (CollectionFile cd)"
    and "rc_indexes \<lparr>rc_name = ''logs'', rc_documents = 0, rc_indexes = - 1\<rparr>
           = int (length (indexes cd)) - 1"
    unfolding ex by (auto simp: dir)
  with h3 have "rc_indexes \<lparr>rc_name = ''logs'', rc_documents = 0, rc_indexes = - 1\<rparr>
                  = int (length (indexes logs_export)) - 1"
    by simp
  with h1 h2 h3 h4 show ?thesis by blast
qed

section \<open>listBackups: the size of a directory backup\<close>

text \<open>Replacing the \<^verbatim>\<open>totalSize\<close> of the manifests changes only that field of what is read.\<close>

lemma read_manifest_with_totalSize:
  "read_manifest env p (with_totalSize f w)
     = map_option (\<lambda>m. m\<lparr>totalSize := f m\<rparr>) (read_manifest env p w)"
proof (cases "readFile_err env (join p ''backup-info.json'')")
  case (Some e)
  then show ?thesis by (simp add: read_manifest_def readFile_def)
next
  case None
  show ?thesis
  proof (cases "files w (join p ''backup-info.json'')")
    case None
    with \<open>readFile_err env (join p ''backup-info.json'') = None\<close> show ?thesis
      by (simp add: read_manifest_def readFile_def with_totalSize_def)
  next
    case (Some content)
    with \<open>readFile_err env (join p ''backup-info.json'') = None\<close> show ?thesis
      by (cases content) (simp_all add: read_manifest_def readFile_def with_totalSize_def)
  qed
qed

lemma list_loop_with_totalSize:
  "list_loop env (with_totalSize f w) entries backups = list_loop env w entries backups"
proof (induction entries arbitrary: backups)
  case Nil
  show ?case by simp
next
  case (Cons entry rest)
  show ?case
    by (simp add: Let_def read_manifest_with_totalSize Cons.IH
        split: sum.splits option.splits)
qed

text \<open>
  Every descriptor of a directory that the loop adds has the size \<^verbatim>\<open>fs.stat\<close> reports for
  its path.
\<close>

lemma list_loop_directories:
  assumes "list_loop env w entries backups = Inr result"
    and "b \<in> set result" and "\<not> bd_compressed b"
  shows "b \<in> set backups
       \<or> (\<exists>fstat. stat env (bd_path b) = Inr fstat \<and> isDirectory fstat
                  \<and> bd_size b = st_size fstat)"
  using assms
proof (induction entries arbitrary: backups)
  case Nil
  then show ?case by simp
next
  case (Cons entry rest)
  from Cons.prems(1) obtain fstat where st: "stat env (join (backupDir env) entry) = Inr fstat"
    by (auto simp: Let_def split: sum.splits)
  show ?case
  proof (cases "isDirectory fstat")
    case True
    show ?thesis
    proof (cases "read_manifest env (join (backupDir env) entry) w")
      case None
      with Cons.prems st True have "list_loop env w rest backups = Inr result"
        by (simp add: Let_def)
      from Cons.IH [OF this Cons.prems(2,3)] show ?thesis .
    next
      case (Some m)
      define d where "d = \<lparr>bd_name = entry, bd_path = join (backupDir env) entry,
                            bd_created = bi_timestamp m,
                            bd_cluster = Some (bi_cluster m),
                            bd_database = Some (bi_database m),
                            bd_collections = Some (length (collections m)),
                            bd_totalDocuments = Some (totalDocuments m),
                            bd_size = st_size fstat, bd_compressed = False\<rparr>"
      from Cons.prems st True Some have "list_loop env w rest (backups @ [d]) = Inr result"
        by (simp add: Let_def d_def)
      from Cons.IH [OF this Cons.prems(2,3)] show ?thesis
        using st True by (auto simp: d_def)
    qed
  next
    case False
    show ?thesis
    proof (cases "endsWith entry ''.zip''")
      case True
      define d where "d = \<lparr>bd_name = remove_first ''.zip'' entry,
                            bd_path = join (backupDir env) entry,
                            bd_created = mtime fstat, bd_cluster = None, bd_database = None,
                            bd_collections = None, bd_totalDocuments = None,
                            bd_size = st_size fstat, bd_compressed = True\<rparr>"
      from Cons.prems st False True have "list_loop env w rest (backups @ [d]) = Inr result"
        by (simp add: Let_def d_def)
      from Cons.IH [OF this Cons.prems(2,3)] show ?thesis
        using Cons.prems(3) by (auto simp: d_def)
    next
      case nz: False
      with Cons.prems st False have "list_loop env w rest backups = Inr result"
        by (simp add: Let_def)
      from Cons.IH [OF this Cons.prems(2,3)] show ?thesis .
    qed
  qed
qed

lemma listBackups_Inr:
  assumes "fst (listBackups env w) = Inr backups"
  obtains entries result where "readdir env (backupDir env) = Inr entries"
    and "list_loop env w entries [] = Inr result"
    and "backups = sort_key (\<lambda>b. - bd_created b) result"
  using assms by (auto simp: listBackups_def split: sum.splits)

lemmas list_defs = listBackups_def read_manifest_def readFile_def join_def endsWith_def Let_def

lemmas cleanup_inputs = cleanup_env_def cleanup_world_def demo_env_def manifest_old_def
  manifest_recent_def

lemma demo_list: "fst (listBackups cleanup_env cleanup_world) = Inr listed_backups"
  by (simp add: list_defs cleanup_inputs listed_backups_def old_descriptor_def)

text \<open>
  C10. For every descriptor of an uncompressed backup that \<^verbatim>\<open>listBackups\<close> returns, the
  entry at its path is a directory and the \<^verbatim>\<open>size\<close> of the descriptor is the size
  \<^verbatim>\<open>fs.stat\<close> reports for that entry. The manifest's \<^verbatim>\<open>totalSize\<close> plays no part: with the
  \<^verbatim>\<open>totalSize\<close> of every manifest replaced by any other value the listing is the same.
\<close>

theorem C10_directory_size_is_stat_size:
  assumes ok: "fst (listBackups env w) = Inr backups"
    and b: "b \<in> set backups"
    and dir: "\<not> bd_compressed b"
  shows "(\<exists>fstat. stat env (bd_path b) = Inr fstat \<and> isDirectory fstat
                  \<and> bd_size b = st_size fstat)
       \<and> (\<forall>f. fst (listBackups env (with_totalSize f w)) = Inr backups)"
proof -
  from ok obtain entries result where rd: "readdir env (backupDir env) = Inr entries"
    and ll: "list_loop env w entries [] = Inr result"
    and bs: "backups = sort_key (\<lambda>b. - bd_created b) result"
    by (rule listBackups_Inr)
  from b have "b \<in> set result" by (simp add: bs)
  from list_loop_directories [OF ll this dir]
  have "\<exists>fstat. stat env (bd_path b) = Inr fstat \<and> isDirectory fstat \<and> bd_size b = st_size fstat"
    by simp
  moreover have "fst (listBackups env (with_totalSize f w)) = Inr backups" for f
    by (simp add: listBackups_def rd list_loop_with_totalSize ll bs)
  ultimately show ?thesis by blast
qed

text \<open>
  The theorem at the backup root of the cleanup example: the directory \<^verbatim>\<open>old\<close> is listed
  with the 4096 bytes of its directory entry, while its manifest records a \<^verbatim>\<open>totalSize\<close> of
  120, and a \<^verbatim>\<open>totalSize\<close> of 999 in every manifest gives the same listing.
\<close>

theorem C10_witness:
  "fst (listBackups cleanup_env cleanup_world) = Inr listed_backups
   \<and> old_descriptor \<in> set listed_backups
   \<and> \<not> bd_compressed old_descriptor
   \<and> stat cleanup_env (bd_path old_descriptor)
       = Inr \<lparr>isDirectory = True, st_size = 4096, mtime = 1701140645678\<rparr>
   \<and> bd_size old_descriptor = 4096
   \<and> files cleanup_world ''backups/old/backup-info.json'' = Some (ManifestFile manifest_old)
   \<and> totalSize manifest_old = 120
   \<and> fst (listBackups cleanup_env (with_totalSize (\<lambda>m. 999) cleanup_world)) = Inr listed_backups"
proof -
  note h1 = demo_list
  have h2: "old_descriptor \<in> set listed_backups" by (simp add: listed_backups_def)
  have h3: "\<not> bd_compressed old_descriptor" by (simp add: old_descriptor_def)
  have h4: "stat cleanup_env (bd_path old_descriptor)
              = Inr \<lparr>isDirectory = True, st_size = 4096, mtime = 1701140645678\<rparr>"
    by (simp add: cleanup_env_def old_descriptor_def)
  have h5: "files cleanup_world ''backups/old/backup-info.json'' = Some (ManifestFile manifest_old)"
    and h6: "totalSize manifest_old = 120"
    by (simp_all add: cleanup_world_def manifest_old_def)
  note c10 = C10_directory_size_is_stat_size [OF h1 h2 h3]
  from c10 obtain fstat where "stat cleanup_env (bd_path old_descriptor) = Inr fstat"
    and "bd_size old_descriptor = st_size fstat"
    by blast
  with h4 have a: "bd_size old_descriptor = 4096" by simp
  from c10 have b: "fst (listBackups cleanup_env (with_totalSize (\<lambda>m. 999) cleanup_world))
                      = Inr listed_backups"
    by blast
  from h1 h2 h3 h4 h5 h6 a b show ?thesis by blast
qed

section \<open>cleanupOldBackups: the returned count\<close>

text \<open>
  The count is the number of listed backups older than the cutoff; the outcome of the
  deletions does not enter it (line 398 returns \<^verbatim>\<open>oldBackups.length\<close>).
\<close>

lemma cleanupOldBackups_count:
  assumes "fst (listBackups env w) = Inr backups"
  shows "fst (cleanupOldBackups env retentionDays w)
           = Inr (length (filter (\<lambda>b. bd_created b < cutoffDate env retentionDays) backups))"
  using assms
  by (cases "listBackups env w") (simp add: cleanupOldBackups_def Let_def split: sum.splits)

text \<open>
  C5. The claim: when some deletions fail and others succeed, the returned integer is the
  number of backups actually removed. Evaluated at \<^verbatim>\<open>cleanupOldBackups(30)\<close> on a backup
  root with the 35 days old directory \<^verbatim>\<open>old\<close>, whose removal is refused, the 35 days old
  archive \<^verbatim>\<open>old2.zip\<close>, whose removal succeeds, and a recent directory, the code does
  otherwise: the directory \<^verbatim>\<open>old\<close> and its manifest are still there, only the archive is
  gone, the log records one failure and one removal, and the call returns 2.
\<close>

theorem C5_counts_failed_deletions:
  "fst (cleanupOldBackups cleanup_env (Some 30) cleanup_world) = Inr 2
   \<and> ''backups/old'' \<in> dirs (snd (cleanupOldBackups cleanup_env (Some 30) cleanup_world))
   \<and> files (snd (cleanupOldBackups cleanup_env (Some 30) cleanup_world))
        ''backups/old/backup-info.json'' = Some (ManifestFile manifest_old)
   \<and> files (snd (cleanupOldBackups cleanup_env (Some 30) cleanup_world)) ''backups/old2.zip''
        = None
   \<and> log (snd (cleanupOldBackups cleanup_env (Some 30) cleanup_world)) =
        [LogError ''Failed to cleanup backup old:'' (Error ''Permission denied''),
         LogInfo ''Cleaned up old backup: old2'']"
  by (simp add: cleanupOldBackups_def cutoffDate_def retention_days_def delete_backup_def
      rmdir_def unlink_def list_defs cleanup_inputs)

end
